theory Spec2Isabelle
  imports Complex_Main
begin

section \<open>JavaScript values\<close>

text \<open>
  The map utilities are JavaScript, and they receive decoded GeoJSON that may be malformed.
  Values are therefore modelled untyped: \<open>undefined\<close>, \<open>null\<close>, booleans, numbers, strings,
  arrays and objects (an object is the list of its own data properties; the first entry
  for a name is the property's value).  Functions, accessor properties and proxies are
  not values of the model: reading a property of a value never runs code.

  Numbers are the exact reals extended with \<open>NaN\<close> and the two infinities.  Rounding and the
  negative zero of IEEE doubles are not modelled.
\<close>

datatype number = Finite real | NaN | PosInf | NegInf

datatype js =
    JUndefined
  | JNull
  | JBool bool
  | JNum number
  | JStr string
  | JArr "js list"
  | JObj "(string \<times> js) list"

text \<open>What a \<open>throw\<close> carries: a \<open>TypeError\<close> of the language, or an error thrown by a library.\<close>

datatype error = TypeError | Thrown string

text \<open>
  What the host supplies and the model leaves open: how a finite number prints, how a
  string is read as a number, and how \<open>new Date(v).toLocaleString('en-US', ...)\<close> formats
  (or fails).
\<close>

record host =
  numberToString :: "real \<Rightarrow> string"
  stringToNumber :: "string \<Rightarrow> number"
  toLocaleString :: "js \<Rightarrow> error + string"

text \<open>
  A host for evaluating examples: every finite number prints as \<open>#\<close>, no string reads as
  a number, and every date formats as \<open>date\<close>.
\<close>

definition plain_host :: host where
  "plain_host = \<lparr>numberToString = (\<lambda>r. ''#''), stringToNumber = (\<lambda>s. NaN),
     toLocaleString = (\<lambda>v. Inr ''date'')\<rparr>"

subsection \<open>Arithmetic on numbers\<close>

fun num_add :: "number \<Rightarrow> number \<Rightarrow> number" where
  "num_add (Finite a) (Finite b) = Finite (a + b)"
| "num_add NaN _ = NaN"
| "num_add _ NaN = NaN"
| "num_add PosInf NegInf = NaN"
| "num_add NegInf PosInf = NaN"
| "num_add PosInf _ = PosInf"
| "num_add _ PosInf = PosInf"
| "num_add NegInf _ = NegInf"
| "num_add _ NegInf = NegInf"

fun num_mul :: "number \<Rightarrow> number \<Rightarrow> number" where
  "num_mul (Finite a) (Finite b) = Finite (a * b)"
| "num_mul NaN _ = NaN"
| "num_mul _ NaN = NaN"
| "num_mul PosInf (Finite b) = (if b = 0 then NaN else if 0 < b then PosInf else NegInf)"
| "num_mul NegInf (Finite b) = (if b = 0 then NaN else if 0 < b then NegInf else PosInf)"
| "num_mul (Finite a) PosInf = (if a = 0 then NaN else if 0 < a then PosInf else NegInf)"
| "num_mul (Finite a) NegInf = (if a = 0 then NaN else if 0 < a then NegInf else PosInf)"
| "num_mul PosInf PosInf = PosInf"
| "num_mul PosInf NegInf = NegInf"
| "num_mul NegInf PosInf = NegInf"
| "num_mul NegInf NegInf = PosInf"

fun num_div :: "number \<Rightarrow> number \<Rightarrow> number" where
  "num_div (Finite a) (Finite b) =
     (if b = 0 then (if a = 0 then NaN else if 0 < a then PosInf else NegInf)
      else Finite (a / b))"
| "num_div NaN _ = NaN"
| "num_div _ NaN = NaN"
| "num_div (Finite a) PosInf = Finite 0"
| "num_div (Finite a) NegInf = Finite 0"
| "num_div PosInf (Finite b) = (if 0 \<le> b then PosInf else NegInf)"
| "num_div NegInf (Finite b) = (if 0 \<le> b then NegInf else PosInf)"
| "num_div PosInf PosInf = NaN"
| "num_div PosInf NegInf = NaN"
| "num_div NegInf PosInf = NaN"
| "num_div NegInf NegInf = NaN"

text \<open>\<open>a >= b\<close> on numbers: false as soon as one side is \<open>NaN\<close>.\<close>

fun num_ge :: "number \<Rightarrow> number \<Rightarrow> bool" where
  "num_ge (Finite a) (Finite b) = (b \<le> a)"
| "num_ge NaN _ = False"
| "num_ge _ NaN = False"
| "num_ge PosInf _ = True"
| "num_ge _ NegInf = True"
| "num_ge (Finite a) PosInf = False"
| "num_ge NegInf (Finite b) = False"
| "num_ge NegInf PosInf = False"

definition Math_max :: "number \<Rightarrow> number \<Rightarrow> number" where
  "Math_max a b = (if a = NaN \<or> b = NaN then NaN else if num_ge a b then a else b)"

definition Math_min :: "number \<Rightarrow> number \<Rightarrow> number" where
  "Math_min a b = (if a = NaN \<or> b = NaN then NaN else if num_ge a b then b else a)"

fun Math_floor :: "number \<Rightarrow> number" where
  "Math_floor (Finite r) = Finite (of_int \<lfloor>r\<rfloor>)"
| "Math_floor n = n"

subsection \<open>Coercions and operators\<close>

fun join_comma :: "string list \<Rightarrow> string" where
  "join_comma [] = []"
| "join_comma [s] = s"
| "join_comma (s # t # ss) = s @ '','' @ join_comma (t # ss)"

fun ToString :: "(real \<Rightarrow> string) \<Rightarrow> js \<Rightarrow> string" where
  "ToString f JUndefined = ''undefined''"
| "ToString f JNull = ''null''"
| "ToString f (JBool b) = (if b then ''true'' else ''false'')"
| "ToString f (JNum (Finite r)) = f r"
| "ToString f (JNum NaN) = ''NaN''"
| "ToString f (JNum PosInf) = ''Infinity''"
| "ToString f (JNum NegInf) = ''-Infinity''"
| "ToString f (JStr s) = s"
| "ToString f (JArr xs) =
     join_comma (map (\<lambda>x. if x = JUndefined \<or> x = JNull then [] else ToString f x) xs)"
| "ToString f (JObj ps) = ''[object Object]''"

fun ToNumber :: "'a host_scheme \<Rightarrow> js \<Rightarrow> number" where
  "ToNumber h JUndefined = NaN"
| "ToNumber h JNull = Finite 0"
| "ToNumber h (JBool b) = Finite (if b then 1 else 0)"
| "ToNumber h (JNum n) = n"
| "ToNumber h (JStr s) = stringToNumber h s"
| "ToNumber h (JArr xs) = stringToNumber h (ToString (numberToString h) (JArr xs))"
| "ToNumber h (JObj ps) = NaN"

text \<open>Operands that \<open>+\<close> turns into strings rather than numbers.\<close>

fun concatenates :: "js \<Rightarrow> bool" where
  "concatenates (JStr s) = True"
| "concatenates (JArr xs) = True"
| "concatenates (JObj ps) = True"
| "concatenates _ = False"

definition js_add :: "'a host_scheme \<Rightarrow> js \<Rightarrow> js \<Rightarrow> js" where
  "js_add h a b =
     (if concatenates a \<or> concatenates b
      then JStr (ToString (numberToString h) a @ ToString (numberToString h) b)
      else JNum (num_add (ToNumber h a) (ToNumber h b)))"

definition js_mul :: "'a host_scheme \<Rightarrow> js \<Rightarrow> js \<Rightarrow> js" where
  "js_mul h a b = JNum (num_mul (ToNumber h a) (ToNumber h b))"

definition js_div :: "'a host_scheme \<Rightarrow> js \<Rightarrow> js \<Rightarrow> js" where
  "js_div h a b = JNum (num_div (ToNumber h a) (ToNumber h b))"

text \<open>\<open>a >= n\<close> where \<open>n\<close> is a numeric literal: the left side is read as a number.\<close>

definition js_ge :: "'a host_scheme \<Rightarrow> js \<Rightarrow> number \<Rightarrow> bool" where
  "js_ge h a n = num_ge (ToNumber h a) n"

fun truthy :: "js \<Rightarrow> bool" where
  "truthy JUndefined = False"
| "truthy JNull = False"
| "truthy (JBool b) = b"
| "truthy (JNum (Finite r)) = (r \<noteq> 0)"
| "truthy (JNum NaN) = False"
| "truthy (JNum n) = True"
| "truthy (JStr s) = (s \<noteq> [])"
| "truthy (JArr xs) = True"
| "truthy (JObj ps) = True"

text \<open>\<open>a || b\<close> on values whose evaluation cannot throw.\<close>

definition js_or :: "js \<Rightarrow> js \<Rightarrow> js" where
  "js_or a b = (if truthy a then a else b)"

section \<open>Magnitude colours\<close>

text \<open>
  \<^verbatim>\<open>
  export function getMagnitudeColor(magnitude) {
    if (magnitude >= 7.0) return '#d32f2f'; // Red
    if (magnitude >= 6.0) return '#f57c00'; // Orange
    if (magnitude >= 5.0) return '#ffa000'; // Amber
    if (magnitude >= 4.0) return '#fbc02d'; // Yellow
    return '#7cb342'; // Light Green
  }
  \<close>
\<close>

definition getMagnitudeColor :: "'a host_scheme \<Rightarrow> js \<Rightarrow> string" where
  "getMagnitudeColor h magnitude =
     (if js_ge h magnitude (Finite 7) then ''#d32f2f''
      else if js_ge h magnitude (Finite 6) then ''#f57c00''
      else if js_ge h magnitude (Finite 5) then ''#ffa000''
      else if js_ge h magnitude (Finite 4) then ''#fbc02d''
      else ''#7cb342'')"

text \<open>
  The bands of the colour table, calmest first: light green, yellow, amber, orange, red.
  Any other string is no band of the table and ranks with the calmest.
\<close>

definition band_rank :: "string \<Rightarrow> nat" where
  "band_rank c =
     (if c = ''#d32f2f'' then 4
      else if c = ''#f57c00'' then 3
      else if c = ''#ffa000'' then 2
      else if c = ''#fbc02d'' then 1
      else 0)"

lemma getMagnitudeColor_real:
  "getMagnitudeColor h (JNum (Finite m)) =
     (if 7 \<le> m then ''#d32f2f''
      else if 6 \<le> m then ''#f57c00''
      else if 5 \<le> m then ''#ffa000''
      else if 4 \<le> m then ''#fbc02d''
      else ''#7cb342'')"
  by (simp add: getMagnitudeColor_def js_ge_def)

lemma band_rank_real:
  "band_rank (getMagnitudeColor h (JNum (Finite m))) =
     (if 7 \<le> m then 4 else if 6 \<le> m then 3 else if 5 \<le> m then 2
      else if 4 \<le> m then 1 else 0)"
  by (simp add: getMagnitudeColor_real band_rank_def)

text \<open>
  C4. On every real magnitude \<open>getMagnitudeColor\<close> returns one of the five colours of the
  table.  The lower bounds are inclusive: 7, 6, 5 and 4 select red, orange, amber and
  yellow, each band reaches up to (not including) the next bound, and everything below 4
  is light green.  The band never gets calmer when the magnitude grows.
\<close>

theorem getMagnitudeColor_banding:
  fixes m m1 m2 :: real
  shows "getMagnitudeColor h (JNum (Finite 7)) = ''#d32f2f''
       \<and> getMagnitudeColor h (JNum (Finite 6)) = ''#f57c00''
       \<and> getMagnitudeColor h (JNum (Finite 5)) = ''#ffa000''
       \<and> getMagnitudeColor h (JNum (Finite 4)) = ''#fbc02d''
       \<and> (7 \<le> m \<longrightarrow> getMagnitudeColor h (JNum (Finite m)) = ''#d32f2f'')
       \<and> (6 \<le> m \<and> m < 7 \<longrightarrow> getMagnitudeColor h (JNum (Finite m)) = ''#f57c00'')
       \<and> (5 \<le> m \<and> m < 6 \<longrightarrow> getMagnitudeColor h (JNum (Finite m)) = ''#ffa000'')
       \<and> (4 \<le> m \<and> m < 5 \<longrightarrow> getMagnitudeColor h (JNum (Finite m)) = ''#fbc02d'')
       \<and> (m < 4 \<longrightarrow> getMagnitudeColor h (JNum (Finite m)) = ''#7cb342'')
       \<and> (m1 \<le> m2 \<longrightarrow>
            band_rank (getMagnitudeColor h (JNum (Finite m1)))
              \<le> band_rank (getMagnitudeColor h (JNum (Finite m2))))"
proof -
  have mono: "m1 \<le> m2 \<longrightarrow>
      band_rank (getMagnitudeColor h (JNum (Finite m1)))
        \<le> band_rank (getMagnitudeColor h (JNum (Finite m2)))"
    unfolding band_rank_real by auto
  have bands: "getMagnitudeColor h (JNum (Finite 7)) = ''#d32f2f''"
    "getMagnitudeColor h (JNum (Finite 6)) = ''#f57c00''"
    "getMagnitudeColor h (JNum (Finite 5)) = ''#ffa000''"
    "getMagnitudeColor h (JNum (Finite 4)) = ''#fbc02d''"
    by (simp_all add: getMagnitudeColor_real)
  have table: "7 \<le> m \<longrightarrow> getMagnitudeColor h (JNum (Finite m)) = ''#d32f2f''"
    "6 \<le> m \<and> m < 7 \<longrightarrow> getMagnitudeColor h (JNum (Finite m)) = ''#f57c00''"
    "5 \<le> m \<and> m < 6 \<longrightarrow> getMagnitudeColor h (JNum (Finite m)) = ''#ffa000''"
    "4 \<le> m \<and> m < 5 \<longrightarrow> getMagnitudeColor h (JNum (Finite m)) = ''#fbc02d''"
    "m < 4 \<longrightarrow> getMagnitudeColor h (JNum (Finite m)) = ''#7cb342''"
    by (simp_all add: getMagnitudeColor_real)
  from bands table mono show ?thesis by blast
qed

theorem getMagnitudeColor_banding_witness:
  "(7::real) \<le> 7.2 \<and> getMagnitudeColor plain_host (JNum (Finite 7.2)) = ''#d32f2f''
   \<and> (6::real) \<le> 6.5 \<and> (6.5::real) < 7
   \<and> getMagnitudeColor plain_host (JNum (Finite 6.5)) = ''#f57c00''
   \<and> (5::real) \<le> 5.5 \<and> (5.5::real) < 6
   \<and> getMagnitudeColor plain_host (JNum (Finite 5.5)) = ''#ffa000''
   \<and> (4::real) \<le> 4.5 \<and> (4.5::real) < 5
   \<and> getMagnitudeColor plain_host (JNum (Finite 4.5)) = ''#fbc02d''
   \<and> (3.9::real) < 4 \<and> getMagnitudeColor plain_host (JNum (Finite 3.9)) = ''#7cb342''
   \<and> (3.9::real) \<le> 7.2
   \<and> band_rank (getMagnitudeColor plain_host (JNum (Finite 3.9)))
     \<le> band_rank (getMagnitudeColor plain_host (JNum (Finite 7.2)))"
proof -
  have a: "(7::real) \<le> 7.2" and b: "(3.9::real) < 4" and c: "(3.9::real) \<le> 7.2"
    and o: "(6::real) \<le> 6.5 \<and> (6.5::real) < 7"
    and m: "(5::real) \<le> 5.5 \<and> (5.5::real) < 6"
    and y: "(4::real) \<le> 4.5 \<and> (4.5::real) < 5"
    by simp_all
  from a getMagnitudeColor_banding [of plain_host "7.2" "3.9" "7.2"]
  have red: "getMagnitudeColor plain_host (JNum (Finite 7.2)) = ''#d32f2f''"
    by blast
  from o getMagnitudeColor_banding [of plain_host "6.5" "3.9" "7.2"]
  have orange: "getMagnitudeColor plain_host (JNum (Finite 6.5)) = ''#f57c00''"
    by blast
  from m getMagnitudeColor_banding [of plain_host "5.5" "3.9" "7.2"]
  have amber: "getMagnitudeColor plain_host (JNum (Finite 5.5)) = ''#ffa000''"
    by blast
  from y getMagnitudeColor_banding [of plain_host "4.5" "3.9" "7.2"]
  have yellow: "getMagnitudeColor plain_host (JNum (Finite 4.5)) = ''#fbc02d''"
    by blast
  from b getMagnitudeColor_banding [of plain_host "3.9" "3.9" "7.2"]
  have green: "getMagnitudeColor plain_host (JNum (Finite 3.9)) = ''#7cb342''"
    by blast
  from c getMagnitudeColor_banding [of plain_host "3.9" "3.9" "7.2"]
  have mono: "band_rank (getMagnitudeColor plain_host (JNum (Finite 3.9)))
     \<le> band_rank (getMagnitudeColor plain_host (JNum (Finite 7.2)))"
    by blast
  from a b c o m y red orange amber yellow green mono show ?thesis by blast
qed

section \<open>Property access and exceptions\<close>

text \<open>
  A computation that may throw returns \<open>Inl\<close> of the error or \<open>Inr\<close> of its value;
  \<open>bindE\<close> runs the next statement unless the first one threw.
\<close>

definition bindE :: "error + 'a \<Rightarrow> ('a \<Rightarrow> error + 'b) \<Rightarrow> error + 'b" where
  "bindE m f = (case m of Inl e \<Rightarrow> Inl e | Inr x \<Rightarrow> f x)"

text \<open>
  \<open>v.k\<close> for a property name written in the source.  Reading a property of \<open>undefined\<close>
  or \<open>null\<close> throws; arrays and strings have a \<open>length\<close>; array elements are read by
  index (below), never by name, in the code modelled here.
\<close>

fun js_get :: "js \<Rightarrow> string \<Rightarrow> error + js" where
  "js_get JUndefined k = Inl TypeError"
| "js_get JNull k = Inl TypeError"
| "js_get (JObj ps) k = Inr (case map_of ps k of None \<Rightarrow> JUndefined | Some v \<Rightarrow> v)"
| "js_get (JArr xs) k =
     Inr (if k = ''length'' then JNum (Finite (real (length xs))) else JUndefined)"
| "js_get (JStr s) k =
     Inr (if k = ''length'' then JNum (Finite (real (length s))) else JUndefined)"
| "js_get (JBool b) k = Inr JUndefined"
| "js_get (JNum n) k = Inr JUndefined"

text \<open>\<open>v?.k\<close>: \<open>undefined\<close> where \<open>v.k\<close> would throw.\<close>

definition js_get_opt :: "js \<Rightarrow> string \<Rightarrow> js" where
  "js_get_opt v k = (case js_get v k of Inl e \<Rightarrow> JUndefined | Inr x \<Rightarrow> x)"

text \<open>\<open>v[2]\<close>, the only index the code reads.\<close>

fun js_at2 :: "js \<Rightarrow> error + js" where
  "js_at2 JUndefined = Inl TypeError"
| "js_at2 JNull = Inl TypeError"
| "js_at2 (JArr xs) = Inr (if 2 < length xs then xs ! 2 else JUndefined)"
| "js_at2 (JStr s) = Inr (if 2 < length s then JStr [s ! 2] else JUndefined)"
| "js_at2 (JObj ps) = Inr (case map_of ps ''2'' of None \<Rightarrow> JUndefined | Some v \<Rightarrow> v)"
| "js_at2 (JBool b) = Inr JUndefined"
| "js_at2 (JNum n) = Inr JUndefined"

section \<open>Marker elements\<close>

text \<open>
  The \<open>div\<close> that \<open>createMarkerElement\<close> builds: its class, the style properties the
  function assigns (the empty string where it assigns none) and its text.
\<close>

record element =
  className :: string
  style_width :: string
  style_height :: string
  style_borderRadius :: string
  style_backgroundColor :: string
  style_border :: string
  style_color :: string
  style_textAlign :: string
  style_lineHeight :: string
  style_cursor :: string
  style_boxShadow :: string
  style_fontWeight :: string
  textContent :: string

definition createElement_div :: element where
  "createElement_div = \<lparr>className = [], style_width = [], style_height = [],
     style_borderRadius = [], style_backgroundColor = [], style_border = [],
     style_color = [], style_textAlign = [], style_lineHeight = [], style_cursor = [],
     style_boxShadow = [], style_fontWeight = [], textContent = []\<rparr>"

text \<open>
  \<^verbatim>\<open>const size = Math.max(20, data.magnitude * 5);\<close> and
  \<^verbatim>\<open>const size = Math.min(Math.max(30, data.count), 60);\<close>
\<close>

definition single_size :: "'a host_scheme \<Rightarrow> js \<Rightarrow> error + number" where
  "single_size h data =
     bindE (js_get data ''magnitude'') (\<lambda>magnitude.
       Inr (Math_max (Finite 20) (ToNumber h (js_mul h magnitude (JNum (Finite 5))))))"

definition cluster_size :: "'a host_scheme \<Rightarrow> js \<Rightarrow> error + number" where
  "cluster_size h data =
     bindE (js_get data ''count'') (\<lambda>count.
       Inr (Math_min (Math_max (Finite 30) (ToNumber h count)) (Finite 60)))"

text \<open>The template literal \<^verbatim>\<open>`${size}px`\<close>.\<close>

definition px :: "'a host_scheme \<Rightarrow> number \<Rightarrow> string" where
  "px h sz = ToString (numberToString h) (JNum sz) @ ''px''"

text \<open>Assigning to \<open>textContent\<close>: \<open>null\<close> and \<open>undefined\<close> clear the text.\<close>

definition set_textContent :: "'a host_scheme \<Rightarrow> js \<Rightarrow> string" where
  "set_textContent h v =
     (if v = JUndefined \<or> v = JNull then [] else ToString (numberToString h) v)"

text \<open>
  \<^verbatim>\<open>
  export function createMarkerElement(type, data) {
    const el = document.createElement('div');
    if (type === 'single') {
      el.className = 'earthquake-marker';
      const size = Math.max(20, data.magnitude * 5);
      el.style.width = `${size}px`;
      el.style.height = `${size}px`;
      el.style.borderRadius = '50%';
      el.style.backgroundColor = getMagnitudeColor(data.magnitude);
      el.style.border = '2px solid white';
      el.style.cursor = 'pointer';
      el.style.boxShadow = '0 0 5px rgba(0,0,0,0.3)';
    } else {
      el.className = 'cluster-marker';
      const size = Math.min(Math.max(30, data.count), 60);
      el.style.width = `${size}px`;
      el.style.height = `${size}px`;
      el.style.borderRadius = '50%';
      el.style.backgroundColor = getMagnitudeColor(data.avgMagnitude);
      el.style.border = '3px solid white';
      el.style.color = 'white';
      el.style.textAlign = 'center';
      el.style.lineHeight = `${size}px`;
      el.style.cursor = 'pointer';
      el.style.boxShadow = '0 0 5px rgba(0,0,0,0.5)';
      el.style.fontWeight = 'bold';
      el.textContent = data.count;
    }
    return el;
  }
  \<close>
\<close>

definition createMarkerElement :: "'a host_scheme \<Rightarrow> js \<Rightarrow> js \<Rightarrow> error + element" where
  "createMarkerElement h type data =
     (if type = JStr ''single'' then
        bindE (single_size h data) (\<lambda>sz.
        bindE (js_get data ''magnitude'') (\<lambda>magnitude.
          Inr (createElement_div
            \<lparr>className := ''earthquake-marker'',
             style_width := px h sz,
             style_height := px h sz,
             style_borderRadius := ''50%'',
             style_backgroundColor := getMagnitudeColor h magnitude,
             style_border := ''2px solid white'',
             style_cursor := ''pointer'',
             style_boxShadow := ''0 0 5px rgba(0,0,0,0.3)''\<rparr>)))
      else
        bindE (cluster_size h data) (\<lambda>sz.
        bindE (js_get data ''avgMagnitude'') (\<lambda>avgMagnitude.
        bindE (js_get data ''count'') (\<lambda>count.
          Inr (createElement_div
            \<lparr>className := ''cluster-marker'',
             style_width := px h sz,
             style_height := px h sz,
             style_borderRadius := ''50%'',
             style_backgroundColor := getMagnitudeColor h avgMagnitude,
             style_border := ''3px solid white'',
             style_color := ''white'',
             style_textAlign := ''center'',
             style_lineHeight := px h sz,
             style_cursor := ''pointer'',
             style_boxShadow := ''0 0 5px rgba(0,0,0,0.5)'',
             style_fontWeight := ''bold'',
             textContent := set_textContent h count\<rparr>)))))"

lemma single_size_real:
  "js_get data ''magnitude'' = Inr (JNum (Finite m)) \<Longrightarrow>
     single_size h data = Inr (Finite (max 20 (m * 5)))"
  by (simp add: single_size_def bindE_def js_mul_def Math_max_def max_def)

lemma cluster_size_real:
  "js_get data ''count'' = Inr (JNum (Finite c)) \<Longrightarrow>
     cluster_size h data = Inr (Finite (min (max 30 c) 60))"
  by (simp add: cluster_size_def bindE_def Math_max_def Math_min_def max_def min_def)

lemma createMarkerElement_single_px:
  assumes "js_get data ''magnitude'' = Inr (JNum (Finite m))"
  shows "\<exists>el. createMarkerElement h (JStr ''single'') data = Inr el
           \<and> style_width el = px h (Finite (max 20 (m * 5)))
           \<and> style_height el = px h (Finite (max 20 (m * 5)))"
  using assms single_size_real [OF assms, of h]
  by (simp add: createMarkerElement_def bindE_def)

lemma createMarkerElement_cluster_px:
  assumes "type \<noteq> JStr ''single''" and "js_get data ''count'' = Inr (JNum (Finite c))"
  shows "\<exists>el. createMarkerElement h type data = Inr el
           \<and> style_width el = px h (Finite (min (max 30 c) 60))
           \<and> style_height el = px h (Finite (min (max 30 c) 60))"
proof -
  obtain a where a: "js_get data ''avgMagnitude'' = Inr a"
    using assms(2) by (cases data) auto
  show ?thesis
    using assms a cluster_size_real [OF assms(2), of h]
    by (simp add: createMarkerElement_def bindE_def)
qed

text \<open>
  C5. For data whose magnitude is the real \<open>m\<close>, a single marker's size is
  \<open>max 20 (m * 5)\<close>; for data whose count is the real \<open>c\<close>, a cluster marker's size is \<open>c\<close>
  clamped to the interval from 30 to 60, so it is 60 from \<open>c = 60\<close> on and 30 up to
  \<open>c = 30\<close>.  The element's width and height are that size in pixels.
\<close>

theorem createMarkerElement_size:
  fixes m c :: real
  shows "(js_get data ''magnitude'' = Inr (JNum (Finite m)) \<longrightarrow>
            single_size h data = Inr (Finite (max 20 (m * 5)))
          \<and> (\<exists>el. createMarkerElement h (JStr ''single'') data = Inr el
                \<and> style_width el = px h (Finite (max 20 (m * 5)))
                \<and> style_height el = px h (Finite (max 20 (m * 5)))))
       \<and> (type \<noteq> JStr ''single'' \<and> js_get data ''count'' = Inr (JNum (Finite c)) \<longrightarrow>
            (\<exists>s. cluster_size h data = Inr (Finite s)
                \<and> s = min (max 30 c) 60 \<and> 30 \<le> s \<and> s \<le> 60
                \<and> (30 \<le> c \<and> c \<le> 60 \<longrightarrow> s = c)
                \<and> (60 \<le> c \<longrightarrow> s = 60) \<and> (c \<le> 30 \<longrightarrow> s = 30)
                \<and> (\<exists>el. createMarkerElement h type data = Inr el
                      \<and> style_width el = px h (Finite s)
                      \<and> style_height el = px h (Finite s))))"
proof (intro conjI impI)
  assume a: "js_get data ''magnitude'' = Inr (JNum (Finite m))"
  show "single_size h data = Inr (Finite (max 20 (m * 5)))"
    by (rule single_size_real [OF a])
  show "\<exists>el. createMarkerElement h (JStr ''single'') data = Inr el
                \<and> style_width el = px h (Finite (max 20 (m * 5)))
                \<and> style_height el = px h (Finite (max 20 (m * 5)))"
    by (rule createMarkerElement_single_px [OF a])
next
  assume a: "type \<noteq> JStr ''single'' \<and> js_get data ''count'' = Inr (JNum (Finite c))"
  then have t: "type \<noteq> JStr ''single''"
    and k: "js_get data ''count'' = Inr (JNum (Finite c))" by simp_all
  have arith: "30 \<le> min (max 30 c) 60" "min (max 30 c) 60 \<le> 60"
    "30 \<le> c \<and> c \<le> 60 \<longrightarrow> min (max 30 c) 60 = c"
    "60 \<le> c \<longrightarrow> min (max 30 c) 60 = 60" "c \<le> 30 \<longrightarrow> min (max 30 c) 60 = 30"
    by auto
  from cluster_size_real [OF k, of h] createMarkerElement_cluster_px [OF t k, of h] arith
  show "\<exists>s. cluster_size h data = Inr (Finite s)
                \<and> s = min (max 30 c) 60 \<and> 30 \<le> s \<and> s \<le> 60
                \<and> (30 \<le> c \<and> c \<le> 60 \<longrightarrow> s = c)
                \<and> (60 \<le> c \<longrightarrow> s = 60) \<and> (c \<le> 30 \<longrightarrow> s = 30)
                \<and> (\<exists>el. createMarkerElement h type data = Inr el
                      \<and> style_width el = px h (Finite s)
                      \<and> style_height el = px h (Finite s))"
    by blast
qed

theorem createMarkerElement_size_witness:
  "js_get (JObj [(''magnitude'', JNum (Finite 9.1))]) ''magnitude'' = Inr (JNum (Finite 9.1))
   \<and> single_size plain_host (JObj [(''magnitude'', JNum (Finite 9.1))]) = Inr (Finite 45.5)
   \<and> JStr ''cluster'' \<noteq> JStr ''single''
   \<and> js_get (JObj [(''count'', JNum (Finite 75))]) ''count'' = Inr (JNum (Finite 75))
   \<and> (60 :: real) \<le> 75
   \<and> cluster_size plain_host (JObj [(''count'', JNum (Finite 75))]) = Inr (Finite 60)
   \<and> js_get (JObj [(''count'', JNum (Finite 45))]) ''count'' = Inr (JNum (Finite 45))
   \<and> (30 :: real) \<le> 45 \<and> (45 :: real) \<le> 60
   \<and> cluster_size plain_host (JObj [(''count'', JNum (Finite 45))]) = Inr (Finite 45)
   \<and> js_get (JObj [(''count'', JNum (Finite 2))]) ''count'' = Inr (JNum (Finite 2))
   \<and> (2 :: real) \<le> 30
   \<and> cluster_size plain_host (JObj [(''count'', JNum (Finite 2))]) = Inr (Finite 30)"
proof -
  have a: "js_get (JObj [(''magnitude'', JNum (Finite 9.1))]) ''magnitude''
             = Inr (JNum (Finite 9.1))"
    by simp
  have t: "JStr ''cluster'' \<noteq> JStr ''single''" by simp
  have k: "js_get (JObj [(''count'', JNum (Finite 75))]) ''count'' = Inr (JNum (Finite 75))"
    "js_get (JObj [(''count'', JNum (Finite 45))]) ''count'' = Inr (JNum (Finite 45))"
    "js_get (JObj [(''count'', JNum (Finite 2))]) ''count'' = Inr (JNum (Finite 2))"
    by simp_all
  have r: "(60 :: real) \<le> 75" "(30 :: real) \<le> 45 \<and> (45 :: real) \<le> 60" "(2 :: real) \<le> 30"
    by simp_all
  from a createMarkerElement_size [of "JObj [(''magnitude'', JNum (Finite 9.1))]" "9.1"
      plain_host "JStr ''cluster''" "75"]
  have "single_size plain_host (JObj [(''magnitude'', JNum (Finite 9.1))])
             = Inr (Finite (max 20 (9.1 * 5)))"
    by blast
  then have s: "single_size plain_host (JObj [(''magnitude'', JNum (Finite 9.1))])
             = Inr (Finite 45.5)"
    by simp
  from t k(1) r(1) createMarkerElement_size [of "JObj [(''count'', JNum (Finite 75))]" "0"
      plain_host "JStr ''cluster''" "75"]
  have c75: "cluster_size plain_host (JObj [(''count'', JNum (Finite 75))]) = Inr (Finite 60)"
    by auto
  from t k(2) r(2) createMarkerElement_size [of "JObj [(''count'', JNum (Finite 45))]" "0"
      plain_host "JStr ''cluster''" "45"]
  have c45: "cluster_size plain_host (JObj [(''count'', JNum (Finite 45))]) = Inr (Finite 45)"
    by auto
  from t k(3) r(3) createMarkerElement_size [of "JObj [(''count'', JNum (Finite 2))]" "0"
      plain_host "JStr ''cluster''" "2"]
  have c2: "cluster_size plain_host (JObj [(''count'', JNum (Finite 2))]) = Inr (Finite 30)"
    by auto
  from a t k r s c75 c45 c2 show ?thesis by blast
qed

section \<open>Validation of the input features\<close>

text \<open>
  \<open>a && b\<close> where both sides may throw: the right side is evaluated only when the left
  one is true.
\<close>

definition andE :: "error + bool \<Rightarrow> error + bool \<Rightarrow> error + bool" where
  "andE a b = (case a of Inl e \<Rightarrow> Inl e | Inr t \<Rightarrow> if t then b else Inr False)"

text \<open>
  \<open>v === lit\<close> for a string or number literal \<open>lit\<close>, \<open>v != null\<close>, and \<open>Array.isArray(v)\<close>.
\<close>

definition strict_eq_lit :: "js \<Rightarrow> js \<Rightarrow> bool" where
  "strict_eq_lit v lit = (v = lit \<and> v \<noteq> JNum NaN)"

definition not_nullish :: "js \<Rightarrow> bool" where
  "not_nullish v = (v \<noteq> JUndefined \<and> v \<noteq> JNull)"

fun isArray :: "js \<Rightarrow> bool" where
  "isArray (JArr xs) = True"
| "isArray _ = False"

text \<open>
  The predicate of the filter, with each operand of the \<open>&&\<close> chain in the order of the
  source:
  \<^verbatim>\<open>
  feature =>
    feature &&
    feature.type === 'Feature' &&
    feature.geometry?.type === 'Point' &&
    Array.isArray(feature.geometry.coordinates) &&
    feature.geometry.coordinates.length === 3 &&
    feature.properties?.mag != null &&
    feature.properties?.place &&
    feature.properties?.time
  \<close>
\<close>

definition validFeature :: "js \<Rightarrow> error + bool" where
  "validFeature feature =
     andE (Inr (truthy feature))
    (andE (bindE (js_get feature ''type'') (\<lambda>t. Inr (strict_eq_lit t (JStr ''Feature''))))
    (andE (bindE (js_get feature ''geometry'') (\<lambda>g.
             Inr (strict_eq_lit (js_get_opt g ''type'') (JStr ''Point''))))
    (andE (bindE (js_get feature ''geometry'') (\<lambda>g.
           bindE (js_get g ''coordinates'') (\<lambda>c. Inr (isArray c))))
    (andE (bindE (js_get feature ''geometry'') (\<lambda>g.
           bindE (js_get g ''coordinates'') (\<lambda>c.
           bindE (js_get c ''length'') (\<lambda>l. Inr (strict_eq_lit l (JNum (Finite 3)))))))
    (andE (bindE (js_get feature ''properties'') (\<lambda>p.
             Inr (not_nullish (js_get_opt p ''mag''))))
    (andE (bindE (js_get feature ''properties'') (\<lambda>p.
             Inr (truthy (js_get_opt p ''place''))))
          (bindE (js_get feature ''properties'') (\<lambda>p.
             Inr (truthy (js_get_opt p ''time''))))))))))"

text \<open>\<open>xs.filter(p)\<close> for a predicate that may throw.\<close>

fun filterE :: "('a \<Rightarrow> error + bool) \<Rightarrow> 'a list \<Rightarrow> error + 'a list" where
  "filterE p [] = Inr []"
| "filterE p (x # xs) =
     bindE (p x) (\<lambda>keep.
     bindE (filterE p xs) (\<lambda>rest.
       Inr (if keep then x # rest else rest)))"

text \<open>\<^verbatim>\<open>const validFeatures = earthquakes.filter(feature => ...)\<close>\<close>

definition validFeatures :: "js list \<Rightarrow> error + js list" where
  "validFeatures earthquakes = filterE validFeature earthquakes"

text \<open>
  The validity invariant as the specification words it: a coordinate pair of two or more
  elements, a non-null magnitude, a non-empty place string and a non-null time.
\<close>

definition spec_valid :: "js \<Rightarrow> bool" where
  "spec_valid feature =
     ((case js_get_opt (js_get_opt feature ''geometry'') ''coordinates'' of
         JArr xs \<Rightarrow> 2 \<le> length xs | _ \<Rightarrow> False)
      \<and> not_nullish (js_get_opt (js_get_opt feature ''properties'') ''mag'')
      \<and> (case js_get_opt (js_get_opt feature ''properties'') ''place'' of
           JStr s \<Rightarrow> s \<noteq> [] | _ \<Rightarrow> False)
      \<and> not_nullish (js_get_opt (js_get_opt feature ''properties'') ''time''))"

text \<open>What the filter accepts, read off the value: the shape of a kept feature.\<close>

definition kept_shape :: "js \<Rightarrow> bool" where
  "kept_shape feature =
     (case feature of
        JObj ps \<Rightarrow>
          map_of ps ''type'' = Some (JStr ''Feature'')
          \<and> (case map_of ps ''geometry'' of
               Some (JObj g) \<Rightarrow>
                 map_of g ''type'' = Some (JStr ''Point'')
                 \<and> (case map_of g ''coordinates'' of
                      Some (JArr xs) \<Rightarrow> length xs = 3
                    | _ \<Rightarrow> False)
             | _ \<Rightarrow> False)
          \<and> (case map_of ps ''properties'' of
               Some (JObj p) \<Rightarrow>
                 (case map_of p ''mag'' of Some m \<Rightarrow> not_nullish m | None \<Rightarrow> False)
                 \<and> (case map_of p ''place'' of Some v \<Rightarrow> truthy v | None \<Rightarrow> False)
                 \<and> (case map_of p ''time'' of Some v \<Rightarrow> truthy v | None \<Rightarrow> False)
             | _ \<Rightarrow> False)
      | _ \<Rightarrow> False)"

lemma js_get_total: "v \<noteq> JUndefined \<Longrightarrow> v \<noteq> JNull \<Longrightarrow> \<exists>x. js_get v k = Inr x"
  by (cases v) auto

lemma js_get_opt_Obj [simp]:
  "js_get_opt (JObj ps) k = (case map_of ps k of None \<Rightarrow> JUndefined | Some v \<Rightarrow> v)"
  by (simp add: js_get_opt_def)

lemma js_get_opt_nullish [simp]:
  "js_get_opt JUndefined k = JUndefined" "js_get_opt JNull k = JUndefined"
  by (simp_all add: js_get_opt_def)

lemma js_get_opt_prim:
  "js_get_opt (JBool b) k = JUndefined" "js_get_opt (JNum n) k = JUndefined"
  by (simp_all add: js_get_opt_def)

lemma isArrayD: "isArray v \<Longrightarrow> \<exists>xs. v = JArr xs"
  by (cases v) auto

lemma validFeature_kept_shape: "validFeature feature = Inr (kept_shape feature)"
proof (cases feature)
  case (JObj ps)
  show ?thesis
  proof (cases "map_of ps ''geometry''")
    case None
    then show ?thesis using JObj
      by (simp add: validFeature_def kept_shape_def andE_def bindE_def strict_eq_lit_def
          split: option.splits)
  next
    case (Some g)
    note g = Some
    show ?thesis
    proof (cases "map_of ps ''properties''")
      case None
      then show ?thesis using JObj g
        by (cases g)
           (auto simp: validFeature_def kept_shape_def andE_def bindE_def strict_eq_lit_def
              js_get_opt_def not_nullish_def
              dest!: isArrayD split: option.splits js.splits)
    next
      case (Some p)
      then show ?thesis using JObj g
        by (cases g; cases p)
           (auto simp: validFeature_def kept_shape_def andE_def bindE_def strict_eq_lit_def
              js_get_opt_def not_nullish_def
              dest!: isArrayD split: option.splits js.splits)
    qed
  qed
qed (simp_all add: validFeature_def kept_shape_def andE_def bindE_def strict_eq_lit_def)

lemma filterE_total:
  assumes "\<And>x. p x = Inr (q x)"
  shows "filterE p xs = Inr (filter q xs)"
  by (induction xs) (simp_all add: assms bindE_def)

lemma validFeatures_filter: "validFeatures earthquakes = Inr (filter kept_shape earthquakes)"
  unfolding validFeatures_def by (rule filterE_total) (rule validFeature_kept_shape)


text \<open>
  A GeoJSON point feature with the given coordinates, magnitude, place and time, as the
  earthquake feed delivers it.
\<close>

definition point_feature :: "js list \<Rightarrow> js \<Rightarrow> js \<Rightarrow> js \<Rightarrow> js" where
  "point_feature coords mag place t =
     JObj [(''type'', JStr ''Feature''),
           (''properties'', JObj [(''mag'', mag), (''place'', place), (''time'', t)]),
           (''geometry'', JObj [(''type'', JStr ''Point''), (''coordinates'', JArr coords)])]"

lemma kept_shape_point_feature:
  "kept_shape (point_feature coords mag place t)
     = (length coords = 3 \<and> not_nullish mag \<and> truthy place \<and> truthy t)"
  by (simp add: kept_shape_def point_feature_def)

lemma spec_valid_point_feature:
  "spec_valid (point_feature coords mag place t)
     = (2 \<le> length coords \<and> not_nullish mag
        \<and> (case place of JStr s \<Rightarrow> s \<noteq> [] | _ \<Rightarrow> False) \<and> not_nullish t)"
  by (simp add: spec_valid_def point_feature_def)

text \<open>
  C2, as the claim states it, fails: a feature with a longitude and a latitude but no
  depth has a coordinate pair, a magnitude, a place and a time, and the filter drops it.
\<close>

theorem validFeatures_drops_spec_valid:
  "spec_valid (point_feature [JNum (Finite 142.4), JNum (Finite 38.3)]
       (JNum (Finite 9.1)) (JStr ''Japan'') (JNum (Finite 1299822383000)))
   \<and> validFeatures [point_feature [JNum (Finite 142.4), JNum (Finite 38.3)]
       (JNum (Finite 9.1)) (JStr ''Japan'') (JNum (Finite 1299822383000))] = Inr []"
  by (simp add: validFeatures_filter kept_shape_point_feature spec_valid_point_feature
      not_nullish_def)

text \<open>
  C2, amended.  The validation step never throws, and it keeps exactly the features of
  the shape \<open>kept_shape\<close>, in their order: objects of type \<open>Feature\<close> whose geometry is an
  object of type \<open>Point\<close> with a coordinates array of exactly three elements, and whose
  properties are an object with a \<open>mag\<close> that is neither \<open>null\<close> nor \<open>undefined\<close>, a truthy
  \<open>place\<close> and a truthy \<open>time\<close>.  Every other feature is dropped, and none of that shape is.
\<close>

theorem validFeatures_keeps_shape:
  "validFeatures earthquakes = Inr (filter kept_shape earthquakes)"
  by (rule validFeatures_filter)

theorem validFeatures_keeps_shape_witness:
  "validFeatures
     [point_feature [JNum (Finite 1), JNum (Finite 2), JNum (Finite 3)]
        (JNum (Finite 5)) (JStr ''A'') (JNum (Finite 100)),
      point_feature [JNum (Finite 1), JNum (Finite 2), JNum (Finite 3)]
        (JNum (Finite 6)) JUndefined (JNum (Finite 200)),
      point_feature [JNum (Finite 4), JNum (Finite 5), JNum (Finite 6)]
        (JNum (Finite 7)) (JStr ''B'') (JNum (Finite 300)),
      point_feature [JNum (Finite 7), JNum (Finite 8), JNum (Finite 9)]
        (JNum (Finite 4)) (JStr ''C'') (JNum (Finite 400))]
   = Inr
     [point_feature [JNum (Finite 1), JNum (Finite 2), JNum (Finite 3)]
        (JNum (Finite 5)) (JStr ''A'') (JNum (Finite 100)),
      point_feature [JNum (Finite 4), JNum (Finite 5), JNum (Finite 6)]
        (JNum (Finite 7)) (JStr ''B'') (JNum (Finite 300)),
      point_feature [JNum (Finite 7), JNum (Finite 8), JNum (Finite 9)]
        (JNum (Finite 4)) (JStr ''C'') (JNum (Finite 400))]"
  using validFeatures_keeps_shape [of
     "[point_feature [JNum (Finite 1), JNum (Finite 2), JNum (Finite 3)]
        (JNum (Finite 5)) (JStr ''A'') (JNum (Finite 100)),
      point_feature [JNum (Finite 1), JNum (Finite 2), JNum (Finite 3)]
        (JNum (Finite 6)) JUndefined (JNum (Finite 200)),
      point_feature [JNum (Finite 4), JNum (Finite 5), JNum (Finite 6)]
        (JNum (Finite 7)) (JStr ''B'') (JNum (Finite 300)),
      point_feature [JNum (Finite 7), JNum (Finite 8), JNum (Finite 9)]
        (JNum (Finite 4)) (JStr ''C'') (JNum (Finite 400))]"]
  by (simp add: kept_shape_point_feature not_nullish_def)

section \<open>The callbacks given to the clustering index\<close>

text \<open>
  \<open>obj.k = v\<close> in module (strict) code.  Assigning a property of \<open>undefined\<close>, \<open>null\<close> or a
  primitive throws.  An object gets the property updated in place, or added last.  An
  array with a named property is not a value of the model; the callbacks only assign to
  the objects that \<open>map\<close> returned.
\<close>

fun obj_set :: "(string \<times> js) list \<Rightarrow> string \<Rightarrow> js \<Rightarrow> (string \<times> js) list" where
  "obj_set [] k v = [(k, v)]"
| "obj_set ((k', v') # ps) k v =
     (if k' = k then (k, v) # ps else (k', v') # obj_set ps k v)"

fun js_set :: "js \<Rightarrow> string \<Rightarrow> js \<Rightarrow> error + js" where
  "js_set (JObj ps) k v = Inr (JObj (obj_set ps k v))"
| "js_set (JArr xs) k v = Inr (JArr xs)"
| "js_set _ k v = Inl TypeError"

text \<open>
  \<^verbatim>\<open>
  map: props => ({
    mag: props.mag,
    time: props.time,
    place: props.place,
    depth: props.depth || 0,
    id: props.id
  }),
  \<close>
\<close>

definition map_callback :: "js \<Rightarrow> error + js" where
  "map_callback props =
     bindE (js_get props ''mag'') (\<lambda>mag.
     bindE (js_get props ''time'') (\<lambda>t.
     bindE (js_get props ''place'') (\<lambda>place.
     bindE (js_get props ''depth'') (\<lambda>depth.
     bindE (js_get props ''id'') (\<lambda>ident.
       Inr (JObj [(''mag'', mag), (''time'', t), (''place'', place),
                  (''depth'', js_or depth (JNum (Finite 0))), (''id'', ident)]))))))"

text \<open>
  \<^verbatim>\<open>
  reduce: (acc, props) => {
    acc.mag = (acc.mag * acc.count + props.mag) / (acc.count + 1);
    acc.depth = (acc.depth * acc.count + (props.depth || 0)) / (acc.count + 1);
  }
  \<close>
  The callback mutates \<open>acc\<close>; the model returns the accumulator after the two
  assignments.
\<close>

definition reduce_callback :: "'a host_scheme \<Rightarrow> js \<Rightarrow> js \<Rightarrow> error + js" where
  "reduce_callback h acc props =
     bindE (js_get acc ''mag'') (\<lambda>acc_mag.
     bindE (js_get acc ''count'') (\<lambda>acc_count.
     bindE (js_get props ''mag'') (\<lambda>props_mag.
     bindE (js_set acc ''mag''
              (js_div h (js_add h (js_mul h acc_mag acc_count) props_mag)
                        (js_add h acc_count (JNum (Finite 1))))) (\<lambda>acc1.
     bindE (js_get acc1 ''depth'') (\<lambda>acc_depth.
     bindE (js_get acc1 ''count'') (\<lambda>acc_count1.
     bindE (js_get props ''depth'') (\<lambda>props_depth.
       js_set acc1 ''depth''
         (js_div h (js_add h (js_mul h acc_depth acc_count1)
                             (js_or props_depth (JNum (Finite 0))))
                   (js_add h acc_count1 (JNum (Finite 1)))))))))))"

text \<open>
  The reduction rule as the specification words it: merging a point of magnitude \<open>m\<close> into
  an aggregate of current count \<open>c\<close> and average \<open>avg\<close> gives the average
  \<open>(avg * c + m) / (c + 1)\<close> and the count \<open>c + 1\<close>.
\<close>

fun spec_merge :: "real \<times> real \<Rightarrow> real \<Rightarrow> real \<times> real" where
  "spec_merge (avg, c) m = ((avg * c + m) / (c + 1), c + 1)"

lemma map_of_obj_set: "map_of (obj_set ps k v) = (map_of ps)(k \<mapsto> v)"
  by (induction ps) (auto simp: fun_eq_iff)

lemma num_div_NaN [simp]: "num_div x NaN = NaN"
  by (cases x) simp_all

lemma num_add_NaN [simp]: "num_add x NaN = NaN"
  by (cases x) simp_all

lemma bindE_Inr_iff:
  "bindE m f = Inr y \<longleftrightarrow> (\<exists>x. m = Inr x \<and> f x = Inr y)"
  by (cases m) (simp_all add: bindE_def)

lemma bindE_Inr [simp]: "bindE (Inr x) f = f x"
  by (simp add: bindE_def)

lemma bindE_Inl [simp]: "bindE (Inl e) f = Inl e"
  by (simp add: bindE_def)

lemma js_get_Inr_JObj:
  "js_get (JObj ps) k = Inr v \<longleftrightarrow> v = (case map_of ps k of None \<Rightarrow> JUndefined | Some x \<Rightarrow> x)"
  by auto

text \<open>The object that \<open>map\<close> returns has the five properties of the literal and no \<open>count\<close>.\<close>

lemma map_callback_result:
  assumes "map_callback props = Inr acc"
  shows "\<exists>mag t place depth ident.
           acc = JObj [(''mag'', mag), (''time'', t), (''place'', place),
                       (''depth'', depth), (''id'', ident)]"
  using assms unfolding map_callback_def by (auto simp: bindE_Inr_iff)

lemma map_callback_no_count:
  assumes "map_callback props = Inr acc"
  shows "js_get acc ''count'' = Inr JUndefined"
  using map_callback_result [OF assms] by auto

text \<open>
  With no \<open>count\<close> in the accumulator both divisors are \<open>undefined + 1\<close>, which is \<open>NaN\<close>,
  and so are both averages, whatever the magnitudes are.
\<close>

lemma reduce_callback_no_count:
  assumes "js_get (JObj ps) ''count'' = Inr JUndefined"
    and "reduce_callback h (JObj ps) props = Inr acc'"
  shows "js_get acc' ''mag'' = Inr (JNum NaN) \<and> js_get acc' ''depth'' = Inr (JNum NaN)"
proof -
  have c: "map_of ps ''count'' = None \<or> map_of ps ''count'' = Some JUndefined"
    using assms(1) by (auto split: option.splits)
  have d: "js_div h x (js_add h JUndefined (JNum (Finite 1))) = JNum NaN" for x
    by (simp add: js_div_def js_add_def)
  from c assms(2) show ?thesis
    unfolding reduce_callback_def
    by (auto simp: bindE_Inr_iff map_of_obj_set d split: option.splits)
qed

lemma reduce_after_map_NaN:
  assumes "map_callback p = Inr acc" and "reduce_callback h acc props = Inr acc'"
  shows "js_get acc' ''mag'' = Inr (JNum NaN) \<and> js_get acc' ''depth'' = Inr (JNum NaN)"
proof -
  from map_callback_result [OF assms(1)] obtain ps where ps: "acc = JObj ps" by blast
  from map_callback_no_count [OF assms(1)] ps
  have "js_get (JObj ps) ''count'' = Inr JUndefined" by simp
  from reduce_callback_no_count [OF this] assms(2) ps show ?thesis by blast
qed

text \<open>
  Had the accumulator a numeric \<open>count\<close>, one call would apply the rule of the
  specification to the magnitude; the call leaves \<open>count\<close> as it was.
\<close>

lemma reduce_callback_with_count:
  assumes "map_of ps ''mag'' = Some (JNum (Finite a))"
    and "map_of ps ''count'' = Some (JNum (Finite c))"
    and "js_get props ''mag'' = Inr (JNum (Finite m))"
    and "c + 1 \<noteq> 0"
    and "reduce_callback h (JObj ps) props = Inr acc'"
  shows "js_get acc' ''mag'' = Inr (JNum (Finite (fst (spec_merge (a, c) m))))
       \<and> js_get acc' ''count'' = Inr (JNum (Finite c))"
  using assms unfolding reduce_callback_def
  by (auto simp: bindE_Inr_iff map_of_obj_set js_div_def js_add_def js_mul_def
      split: option.splits)

text \<open>
  Merged one at a time by the rule of the specification, starting from the first
  magnitude with count 1, the magnitudes end in their arithmetic mean.
\<close>

lemma spec_merge_mean_aux:
  assumes "0 < n"
  shows "foldl spec_merge (s / real n, real n) ms
           = ((s + sum_list ms) / real (n + length ms), real (n + length ms))"
  using assms
proof (induction ms arbitrary: s n)
  case Nil
  then show ?case by simp
next
  case (Cons m ms)
  have step: "spec_merge (s / real n, real n) m = ((s + m) / real (Suc n), real (Suc n))"
    using Cons.prems by (simp add: field_simps)
  have "foldl spec_merge (s / real n, real n) (m # ms)
          = foldl spec_merge ((s + m) / real (Suc n), real (Suc n)) ms"
    by (simp only: foldl_Cons step)
  also have "\<dots> = ((s + m + sum_list ms) / real (Suc n + length ms),
                    real (Suc n + length ms))"
    by (rule Cons.IH) simp
  finally show ?case by (simp add: add.assoc)
qed

lemma spec_merge_mean:
  "fst (foldl spec_merge (m, 1) ms) = sum_list (m # ms) / real (length (m # ms))"
  using spec_merge_mean_aux [of 1 m ms] by simp

text \<open>
  C3.  The code does not reach the mean the claim states.  Supercluster starts the
  accumulator of a cluster from what \<open>map\<close> returns for its first point and hands \<open>reduce\<close>
  what \<open>map\<close> returns for the next one.  For the magnitudes 5 and 6 the rule gives 5.5;
  the callback reads \<open>acc.count\<close>, which \<open>map\<close> never sets and \<open>reduce\<close> never updates (the
  index keeps its count under \<open>point_count\<close>), and leaves \<open>NaN\<close> in \<open>acc.mag\<close>.
\<close>

theorem reduce_callback_5_6_is_NaN:
  "bindE (map_callback (JObj [(''mag'', JNum (Finite 5)), (''place'', JStr ''A''),
                              (''time'', JNum (Finite 100))])) (\<lambda>acc.
   bindE (map_callback (JObj [(''mag'', JNum (Finite 6)), (''place'', JStr ''B''),
                              (''time'', JNum (Finite 200))])) (\<lambda>props.
   bindE (reduce_callback plain_host acc props) (\<lambda>acc'. js_get acc' ''mag'')))
     = Inr (JNum NaN)
   \<and> fst (foldl spec_merge (5, 1) [6]) = 5.5"
  by (simp add: map_callback_def reduce_callback_def js_or_def js_div_def js_add_def
      js_mul_def)

section \<open>The clustering index\<close>

text \<open>
  \<open>Supercluster\<close> is a library the repository imports; its code is no part of the
  repository.  The model takes the library as a parameter: a record of its constructor
  and of the three methods that \<open>createClusterMarkers\<close> calls, over a type \<open>'i\<close> of index
  states.  Each of them may throw.  \<open>load\<close> returns the index with the points loaded.
\<close>

record options =
  opt_radius :: js
  opt_maxZoom :: js
  opt_minZoom :: js
  opt_map :: "js \<Rightarrow> error + js"
  opt_reduce :: "js \<Rightarrow> js \<Rightarrow> error + js"

record 'i supercluster =
  construct :: "options \<Rightarrow> error + 'i"
  load :: "'i \<Rightarrow> js \<Rightarrow> error + 'i"
  getClusters :: "'i \<Rightarrow> js \<Rightarrow> js \<Rightarrow> error + js"
  getLeaves :: "'i \<Rightarrow> js \<Rightarrow> js \<Rightarrow> error + js"

text \<open>
  The \<open>bounds\<close> argument: a map's bounds object, given by what each of its methods returns
  (or throws) when called without arguments, or any value of the model, none of which
  has a method.
\<close>

datatype bounds = NoMethods js | LngLatBounds "string \<Rightarrow> (error + js) option"

fun call_method :: "bounds \<Rightarrow> string \<Rightarrow> error + js" where
  "call_method (NoMethods v) name = Inl TypeError"
| "call_method (LngLatBounds methods) name =
     (case methods name of None \<Rightarrow> Inl TypeError | Some result \<Rightarrow> result)"

section \<open>Marker descriptors\<close>

text \<open>
  The object literals that \<open>createClusterMarkers\<close> returns.  An earthquake has the
  properties \<open>id\<close>, \<open>magnitude\<close>, \<open>location\<close>, \<open>coordinates\<close>, \<open>depth\<close>, \<open>time\<close>, \<open>timestamp\<close>
  and \<open>url\<close>; a descriptor has the \<open>type\<close> \<open>single\<close> or \<open>cluster\<close>.
\<close>

record earthquake =
  q_id :: js
  q_magnitude :: js
  q_location :: js
  q_coordinates :: js
  q_depth :: js
  q_time :: string
  q_timestamp :: js
  q_url :: js

datatype marker =
    Single (earthquake: earthquake) (coordinates: js) (magnitude: js) (depth: js)
  | Cluster (coordinates: js) (count: js) (avgMagnitude: js) (avgDepth: js)
      (points: "earthquake list")

text \<open>
  \<^verbatim>\<open>
  export function formatDate(timestamp) {
    try {
      return new Date(timestamp).toLocaleString('en-US', { ... });
    } catch (error) {
      console.error('Error formatting date:', error);
      return 'Date unavailable';
    }
  }
  \<close>
\<close>

definition formatDate :: "'a host_scheme \<Rightarrow> js \<Rightarrow> string" where
  "formatDate h timestamp =
     (case toLocaleString h timestamp of Inl e \<Rightarrow> ''Date unavailable'' | Inr s \<Rightarrow> s)"

text \<open>\<open>xs.map(f)\<close> for a callback that may throw, on a list and on a value.\<close>

fun mapE :: "('a \<Rightarrow> error + 'b) \<Rightarrow> 'a list \<Rightarrow> error + 'b list" where
  "mapE f [] = Inr []"
| "mapE f (x # xs) =
     bindE (f x) (\<lambda>y.
     bindE (mapE f xs) (\<lambda>ys.
       Inr (y # ys)))"

fun array_map :: "(js \<Rightarrow> error + 'b) \<Rightarrow> js \<Rightarrow> error + 'b list" where
  "array_map f (JArr xs) = mapE f xs"
| "array_map f _ = Inl TypeError"

section \<open>createClusterMarkers\<close>

text \<open>
  The object literal of a single earthquake (\<open>cluster\<close> is the node the index returned):
  \<^verbatim>\<open>
  return {
    type: 'single',
    earthquake: {
      id: cluster.properties.id || cluster.id,
      magnitude: cluster.properties.mag,
      location: cluster.properties.place,
      coordinates: cluster.geometry.coordinates,
      depth: cluster.geometry.coordinates[2],
      time: formatDate(cluster.properties.time),
      timestamp: cluster.properties.time,
      url: cluster.properties.url
    },
    coordinates: cluster.geometry.coordinates,
    magnitude: cluster.properties.mag,
    depth: cluster.geometry.coordinates[2]
  };
  \<close>
  Reading the same property of the same value twice gives the same result, so each
  property is read once.
\<close>

definition singleMarker :: "'a host_scheme \<Rightarrow> js \<Rightarrow> error + marker" where
  "singleMarker h cluster =
     bindE (js_get cluster ''properties'') (\<lambda>props.
     bindE (js_get props ''id'') (\<lambda>props_id.
     bindE (js_get cluster ''id'') (\<lambda>cluster_id.
     bindE (js_get props ''mag'') (\<lambda>mag.
     bindE (js_get props ''place'') (\<lambda>place.
     bindE (js_get cluster ''geometry'') (\<lambda>geometry.
     bindE (js_get geometry ''coordinates'') (\<lambda>coords.
     bindE (js_at2 coords) (\<lambda>coords2.
     bindE (js_get props ''time'') (\<lambda>t.
     bindE (js_get props ''url'') (\<lambda>url.
       Inr (Single
         \<lparr>q_id = js_or props_id cluster_id,
          q_magnitude = mag,
          q_location = place,
          q_coordinates = coords,
          q_depth = coords2,
          q_time = formatDate h t,
          q_timestamp = t,
          q_url = url\<rparr>
         coords mag coords2)))))))))))"

text \<open>
  \<^verbatim>\<open>
  leaf => ({
    id: leaf.properties.id,
    magnitude: leaf.properties.mag,
    location: leaf.properties.place,
    coordinates: leaf.geometry.coordinates,
    depth: leaf.geometry.coordinates[2],
    time: formatDate(leaf.properties.time),
    timestamp: leaf.properties.time,
    url: leaf.properties.url
  })
  \<close>
\<close>

definition leafToPoint :: "'a host_scheme \<Rightarrow> js \<Rightarrow> error + earthquake" where
  "leafToPoint h leaf =
     bindE (js_get leaf ''properties'') (\<lambda>props.
     bindE (js_get props ''id'') (\<lambda>props_id.
     bindE (js_get props ''mag'') (\<lambda>mag.
     bindE (js_get props ''place'') (\<lambda>place.
     bindE (js_get leaf ''geometry'') (\<lambda>geometry.
     bindE (js_get geometry ''coordinates'') (\<lambda>coords.
     bindE (js_at2 coords) (\<lambda>coords2.
     bindE (js_get props ''time'') (\<lambda>t.
     bindE (js_get props ''url'') (\<lambda>url.
       Inr \<lparr>q_id = props_id,
            q_magnitude = mag,
            q_location = place,
            q_coordinates = coords,
            q_depth = coords2,
            q_time = formatDate h t,
            q_timestamp = t,
            q_url = url\<rparr>)))))))))"

text \<open>
  \<^verbatim>\<open>points.reduce((sum, p) => sum + p.magnitude, 0) / points.length\<close>, and the same over
  \<open>p.depth\<close>.
\<close>

definition sample_mean :: "'a host_scheme \<Rightarrow> (earthquake \<Rightarrow> js) \<Rightarrow> earthquake list \<Rightarrow> js" where
  "sample_mean h field ps =
     js_div h (foldl (\<lambda>sum p. js_add h sum (field p)) (JNum (Finite 0)) ps)
              (JNum (Finite (real (length ps))))"

text \<open>
  \<^verbatim>\<open>
  const leaves = index.getLeaves(cluster.properties.cluster_id, 10);
  const points = leaves.map(leaf => ({ ... }));
  return {
    type: 'cluster',
    coordinates: cluster.geometry.coordinates,
    count: cluster.properties.point_count,
    avgMagnitude: cluster.properties.mag
      || points.reduce((sum, p) => sum + p.magnitude, 0) / points.length,
    avgDepth: cluster.properties.depth
      || points.reduce((sum, p) => sum + p.depth, 0) / points.length,
    points
  };
  \<close>
\<close>

definition clusterMarker ::
  "'a host_scheme \<Rightarrow> ('i, 'b) supercluster_scheme \<Rightarrow> 'i \<Rightarrow> js \<Rightarrow> error + marker" where
  "clusterMarker h lib index cluster =
     bindE (js_get cluster ''properties'') (\<lambda>props.
     bindE (js_get props ''cluster_id'') (\<lambda>cluster_id.
     bindE (getLeaves lib index cluster_id (JNum (Finite 10))) (\<lambda>leaves.
     bindE (array_map (leafToPoint h) leaves) (\<lambda>ps.
     bindE (js_get cluster ''geometry'') (\<lambda>geometry.
     bindE (js_get geometry ''coordinates'') (\<lambda>coords.
     bindE (js_get props ''point_count'') (\<lambda>point_count.
     bindE (js_get props ''mag'') (\<lambda>mag.
     bindE (js_get props ''depth'') (\<lambda>props_depth.
       Inr (Cluster coords point_count
              (js_or mag (sample_mean h q_magnitude ps))
              (js_or props_depth (sample_mean h q_depth ps))
              ps))))))))))"

text \<open>
  The callback of \<open>clusters.map\<close>:
  \<^verbatim>\<open>
  cluster => {
    if (!cluster.properties.cluster) { return { type: 'single', ... }; }
    ...
    return { type: 'cluster', ... };
  }
  \<close>
\<close>

definition clusterToMarker ::
  "'a host_scheme \<Rightarrow> ('i, 'b) supercluster_scheme \<Rightarrow> 'i \<Rightarrow> js \<Rightarrow> error + marker" where
  "clusterToMarker h lib index cluster =
     bindE (js_get cluster ''properties'') (\<lambda>props.
     bindE (js_get props ''cluster'') (\<lambda>is_cluster.
       if \<not> truthy is_cluster then singleMarker h cluster
       else clusterMarker h lib index cluster))"

text \<open>Every descriptor is an object, and \<open>.filter(Boolean)\<close> keeps every object.\<close>

definition marker_truthy :: "marker \<Rightarrow> bool" where
  "marker_truthy m = True"

text \<open>The options of \<^verbatim>\<open>new Supercluster({ radius: 60, maxZoom: 16, minZoom: 0, map, reduce })\<close>.\<close>

definition supercluster_options :: "'a host_scheme \<Rightarrow> options" where
  "supercluster_options h =
     \<lparr>opt_radius = JNum (Finite 60), opt_maxZoom = JNum (Finite 16),
      opt_minZoom = JNum (Finite 0), opt_map = map_callback,
      opt_reduce = reduce_callback h\<rparr>"

text \<open>
  The body of the \<open>try\<close> block, for the elements of the (non-empty) input array:
  \<^verbatim>\<open>
  const validFeatures = earthquakes.filter(feature => ...);
  if (validFeatures.length === 0) {
    console.warn('No valid earthquake features found');
    return [];
  }
  const index = new Supercluster({ ... });
  index.load(validFeatures);
  const bbox = [bounds.getWest(), bounds.getSouth(), bounds.getEast(), bounds.getNorth()];
  const clusters = index.getClusters(bbox, Math.floor(zoom));
  return clusters.map(cluster => { ... }).filter(Boolean);
  \<close>
\<close>

definition createClusterMarkers_try ::
  "'a host_scheme \<Rightarrow> ('i, 'b) supercluster_scheme \<Rightarrow> js list \<Rightarrow> bounds \<Rightarrow> js
     \<Rightarrow> error + marker list" where
  "createClusterMarkers_try h lib earthquakes bounds zoom =
     bindE (validFeatures earthquakes) (\<lambda>valid.
       if length valid = 0 then Inr []
       else
         bindE (construct lib (supercluster_options h)) (\<lambda>index0.
         bindE (load lib index0 (JArr valid)) (\<lambda>index.
         bindE (call_method bounds ''getWest'') (\<lambda>west.
         bindE (call_method bounds ''getSouth'') (\<lambda>south.
         bindE (call_method bounds ''getEast'') (\<lambda>east.
         bindE (call_method bounds ''getNorth'') (\<lambda>north.
         bindE (getClusters lib index (JArr [west, south, east, north])
                  (JNum (Math_floor (ToNumber h zoom)))) (\<lambda>clusters.
         bindE (array_map (clusterToMarker h lib index) clusters) (\<lambda>markers.
           Inr (filter marker_truthy markers))))))))))"

text \<open>
  \<^verbatim>\<open>
  export function createClusterMarkers(earthquakes, bounds, zoom) {
    if (!earthquakes || !Array.isArray(earthquakes) || earthquakes.length === 0) {
      return [];
    }
    try {
      ...
    } catch (error) {
      console.error('Error creating cluster markers:', error);
      return [];
    }
  }
  \<close>
  The result is \<open>Inr\<close> of the returned list, or \<open>Inl\<close> of an error that leaves the function.
\<close>

fun elements :: "js \<Rightarrow> js list" where
  "elements (JArr xs) = xs"
| "elements _ = []"

definition createClusterMarkers ::
  "'a host_scheme \<Rightarrow> ('i, 'b) supercluster_scheme \<Rightarrow> js \<Rightarrow> bounds \<Rightarrow> js
     \<Rightarrow> error + marker list" where
  "createClusterMarkers h lib earthquakes bounds zoom =
     (if \<not> truthy earthquakes \<or> \<not> isArray earthquakes \<or> length (elements earthquakes) = 0
      then Inr []
      else
        (case createClusterMarkers_try h lib (elements earthquakes) bounds zoom of
           Inr markers \<Rightarrow> Inr markers
         | Inl e \<Rightarrow> Inr []))"


section \<open>An index for examples\<close>

text \<open>
  A small index to evaluate the functions on: its state is the options and the loaded
  points, and it takes every two points to lie within the radius of each other.  Two or
  more loaded points make one cluster, whose properties are accumulated with the \<open>map\<close>
  and \<open>reduce\<close> options, as Supercluster does, and extended by \<open>cluster\<close>, \<open>cluster_id\<close> and
  \<open>point_count\<close>; a single loaded point is returned as it was loaded.
\<close>

fun foldE :: "('b \<Rightarrow> 'a \<Rightarrow> error + 'b) \<Rightarrow> 'b \<Rightarrow> 'a list \<Rightarrow> error + 'b" where
  "foldE f acc [] = Inr acc"
| "foldE f acc (x # xs) = bindE (f acc x) (\<lambda>acc'. foldE f acc' xs)"

definition mapped_properties :: "options \<Rightarrow> js \<Rightarrow> error + js" where
  "mapped_properties opts point =
     bindE (js_get point ''properties'') (\<lambda>props. opt_map opts props)"

definition extend_properties :: "js \<Rightarrow> nat \<Rightarrow> error + js" where
  "extend_properties acc n =
     (case acc of
        JObj ps \<Rightarrow>
          Inr (JObj ([(''cluster'', JBool True), (''cluster_id'', JNum (Finite 1)),
                      (''point_count'', JNum (Finite (real n)))] @ ps))
      | _ \<Rightarrow> Inl (Thrown ''properties''))"

definition cluster_properties :: "options \<Rightarrow> js list \<Rightarrow> error + js" where
  "cluster_properties opts pts =
     (case pts of
        [] \<Rightarrow> Inl (Thrown ''no points'')
      | p # rest \<Rightarrow>
          bindE (mapped_properties opts p) (\<lambda>acc0.
          bindE (foldE (\<lambda>acc b. bindE (mapped_properties opts b) (opt_reduce opts acc))
                   acc0 rest) (\<lambda>acc.
            extend_properties acc (length pts))))"

definition example_getClusters :: "options \<times> js list \<Rightarrow> js \<Rightarrow> js \<Rightarrow> error + js" where
  "example_getClusters index bbox zoom =
     (if length (snd index) < 2 then Inr (JArr (snd index))
      else
        bindE (cluster_properties (fst index) (snd index)) (\<lambda>props.
          Inr (JArr [JObj [(''type'', JStr ''Feature''), (''id'', JNum (Finite 1)),
                           (''properties'', props),
                           (''geometry'', JObj [(''type'', JStr ''Point''),
                              (''coordinates'', JArr [JNum (Finite 0), JNum (Finite 0)])])]])))"

definition example_getLeaves :: "options \<times> js list \<Rightarrow> js \<Rightarrow> js \<Rightarrow> error + js" where
  "example_getLeaves index cluster_id limit =
     (if cluster_id = JNum (Finite 1) \<and> 2 \<le> length (snd index)
      then (case limit of
              JNum (Finite r) \<Rightarrow> Inr (JArr (take (nat \<lfloor>r\<rfloor>) (snd index)))
            | _ \<Rightarrow> Inr (JArr (take 10 (snd index))))
      else Inl (Thrown ''No cluster with the specified id.''))"

definition example_index :: "(options \<times> js list) supercluster" where
  "example_index =
     \<lparr>construct = (\<lambda>opts. Inr (opts, [])),
      load = (\<lambda>index pts.
        case pts of JArr xs \<Rightarrow> Inr (fst index, xs) | _ \<Rightarrow> Inl (Thrown ''load'')),
      getClusters = example_getClusters,
      getLeaves = example_getLeaves\<rparr>"

text \<open>Bounds that cover the whole map.\<close>

definition world_bounds :: bounds where
  "world_bounds = LngLatBounds
     (\<lambda>name. if name = ''getWest'' then Some (Inr (JNum (Finite (- 180))))
             else if name = ''getSouth'' then Some (Inr (JNum (Finite (- 90))))
             else if name = ''getEast'' then Some (Inr (JNum (Finite 180)))
             else if name = ''getNorth'' then Some (Inr (JNum (Finite 90)))
             else None)"

section \<open>Failures and empty input\<close>

text \<open>
  C1.  \<open>createClusterMarkers\<close> returns a list for every value of \<open>earthquakes\<close> and
  \<open>zoom\<close>, every \<open>bounds\<close>, every host and every behaviour of the index: no error leaves
  the function.  Whenever the \<open>try\<close> block throws,
  in the validation, in the construction or loading of the index, in reading the bounds
  or in the query, the result is the empty list.
\<close>

theorem createClusterMarkers_never_raises:
  "(\<exists>markers. createClusterMarkers h lib earthquakes bounds zoom = Inr markers)
   \<and> (\<forall>e. createClusterMarkers_try h lib (elements earthquakes) bounds zoom = Inl e
          \<longrightarrow> createClusterMarkers h lib earthquakes bounds zoom = Inr [])"
  by (simp add: createClusterMarkers_def split: sum.splits)

theorem createClusterMarkers_never_raises_witness:
  "createClusterMarkers_try plain_host example_index
       (elements (JArr [point_feature [JNum (Finite 1), JNum (Finite 2), JNum (Finite 3)]
          (JNum (Finite 5)) (JStr ''A'') (JNum (Finite 100))]))
       (NoMethods JUndefined) (JNum (Finite 2)) = Inl TypeError
   \<and> createClusterMarkers plain_host example_index
       (JArr [point_feature [JNum (Finite 1), JNum (Finite 2), JNum (Finite 3)]
          (JNum (Finite 5)) (JStr ''A'') (JNum (Finite 100))])
       (NoMethods JUndefined) (JNum (Finite 2)) = Inr []"
proof -
  have t: "createClusterMarkers_try plain_host example_index
       (elements (JArr [point_feature [JNum (Finite 1), JNum (Finite 2), JNum (Finite 3)]
          (JNum (Finite 5)) (JStr ''A'') (JNum (Finite 100))]))
       (NoMethods JUndefined) (JNum (Finite 2)) = Inl TypeError"
    by (simp add: createClusterMarkers_try_def validFeatures_filter kept_shape_point_feature
        not_nullish_def example_index_def)
  from t createClusterMarkers_never_raises [of plain_host example_index
       "JArr [point_feature [JNum (Finite 1), JNum (Finite 2), JNum (Finite 3)]
          (JNum (Finite 5)) (JStr ''A'') (JNum (Finite 100))]"
       "NoMethods JUndefined" "JNum (Finite 2)"]
  show ?thesis by blast
qed

text \<open>
  C7.  For an empty input array, and for an input array of which the validation keeps no
  feature, \<open>createClusterMarkers\<close> returns the empty list, whatever the index and the
  bounds are.
\<close>

theorem createClusterMarkers_nothing_valid:
  "(createClusterMarkers h lib (JArr []) bounds zoom = Inr [])
   \<and> (validFeatures es = Inr []
        \<longrightarrow> createClusterMarkers h lib (JArr es) bounds zoom = Inr [])"
  by (simp add: createClusterMarkers_def createClusterMarkers_try_def)

theorem createClusterMarkers_nothing_valid_witness:
  "validFeatures [point_feature [JNum (Finite 1), JNum (Finite 2), JNum (Finite 3)]
      (JNum (Finite 5)) JUndefined (JNum (Finite 100))] = Inr []
   \<and> createClusterMarkers plain_host example_index
       (JArr [point_feature [JNum (Finite 1), JNum (Finite 2), JNum (Finite 3)]
          (JNum (Finite 5)) JUndefined (JNum (Finite 100))])
       world_bounds (JNum (Finite 2)) = Inr []"
proof -
  have v: "validFeatures [point_feature [JNum (Finite 1), JNum (Finite 2), JNum (Finite 3)]
      (JNum (Finite 5)) JUndefined (JNum (Finite 100))] = Inr []"
    by (simp add: validFeatures_filter kept_shape_point_feature)
  from v createClusterMarkers_nothing_valid [of plain_host example_index
      world_bounds "JNum (Finite 2)"
      "[point_feature [JNum (Finite 1), JNum (Finite 2), JNum (Finite 3)]
          (JNum (Finite 5)) JUndefined (JNum (Finite 100))]"]
  show ?thesis by blast
qed

section \<open>Where a descriptor comes from\<close>

lemma mapE_Inr_all2:
  "mapE f xs = Inr ys \<Longrightarrow> list_all2 (\<lambda>x y. f x = Inr y) xs ys"
proof (induction xs arbitrary: ys)
  case Nil
  then show ?case by simp
next
  case (Cons x xs)
  from Cons.prems obtain y ys' where "f x = Inr y" "mapE f xs = Inr ys'" "ys = y # ys'"
    by (auto simp: bindE_Inr_iff)
  with Cons.IH show ?case by simp
qed

lemma mapE_Inr_length: "mapE f xs = Inr ys \<Longrightarrow> length ys = length xs"
  by (drule mapE_Inr_all2) (simp add: list_all2_lengthD)

lemma mapE_Inr_member:
  assumes "mapE f xs = Inr ys" and "y \<in> set ys"
  shows "\<exists>x\<in>set xs. f x = Inr y"
proof -
  from assms(2) obtain i where i: "i < length ys" "ys ! i = y"
    by (auto simp: in_set_conv_nth)
  from mapE_Inr_all2 [OF assms(1)] i have "f (xs ! i) = Inr y" "i < length xs"
    by (auto simp: list_all2_conv_all_nth)
  then show ?thesis by (metis nth_mem)
qed

lemma array_map_Inr:
  "array_map f v = Inr ys \<Longrightarrow> \<exists>xs. v = JArr xs \<and> mapE f xs = Inr ys"
  by (cases v) simp_all

lemma js_get_opt_eq: "js_get v k = Inr x \<Longrightarrow> js_get_opt v k = x"
  by (simp add: js_get_opt_def)

text \<open>A property of the \<open>properties\<close> of a node, \<open>undefined\<close> where the node has none.\<close>

definition node_property :: "js \<Rightarrow> string \<Rightarrow> js" where
  "node_property c k = js_get_opt (js_get_opt c ''properties'') k"

lemma node_property_eq:
  "js_get c ''properties'' = Inr props \<Longrightarrow> js_get props k = Inr x \<Longrightarrow> node_property c k = x"
  by (simp add: node_property_def js_get_opt_eq)

text \<open>
  Every descriptor of the result was made by the callback from a node that the query
  returned, on the index loaded with the valid features of the input.
\<close>

lemma createClusterMarkers_origin:
  assumes "createClusterMarkers h lib earthquakes bounds zoom = Inr markers"
    and "m \<in> set markers"
  shows "\<exists>index0 index bbox z nodes c.
           load lib index0 (JArr (filter kept_shape (elements earthquakes))) = Inr index
         \<and> getClusters lib index bbox z = Inr (JArr nodes)
         \<and> c \<in> set nodes
         \<and> clusterToMarker h lib index c = Inr m"
proof -
  from assms have ne: "markers \<noteq> []" by auto
  with assms(1) have t:
    "createClusterMarkers_try h lib (elements earthquakes) bounds zoom = Inr markers"
    by (auto simp: createClusterMarkers_def split: if_splits sum.splits)
  from t ne obtain index0 index bbox z clusters ms where
    l: "load lib index0 (JArr (filter kept_shape (elements earthquakes))) = Inr index"
    and g: "getClusters lib index bbox z = Inr clusters"
    and a: "array_map (clusterToMarker h lib index) clusters = Inr ms"
    and f: "markers = filter marker_truthy ms"
    unfolding createClusterMarkers_try_def validFeatures_filter
    by (auto simp: bindE_Inr_iff split: if_splits)
  from array_map_Inr [OF a] obtain nodes where
    n: "clusters = JArr nodes" "mapE (clusterToMarker h lib index) nodes = Inr ms"
    by blast
  from f assms(2) have "m \<in> set ms" by (simp add: marker_truthy_def)
  from mapE_Inr_member [OF n(2) this] obtain c where
    "c \<in> set nodes" "clusterToMarker h lib index c = Inr m" by blast
  with l g n(1) show ?thesis by blast
qed

lemma singleMarker_is_Single:
  "singleMarker h c = Inr m \<Longrightarrow> \<exists>q co mg d. m = Single q co mg d"
  unfolding singleMarker_def by (auto simp: bindE_Inr_iff)

lemma clusterMarker_is_Cluster:
  "clusterMarker h lib index c = Inr m \<Longrightarrow> \<exists>co cnt am ad ps. m = Cluster co cnt am ad ps"
  unfolding clusterMarker_def by (auto simp: bindE_Inr_iff)

lemma clusterToMarker_Cluster:
  assumes "clusterToMarker h lib index c = Inr (Cluster co cnt am ad ps)"
  shows "truthy (node_property c ''cluster'')
       \<and> (\<exists>leaves.
            getLeaves lib index (node_property c ''cluster_id'') (JNum (Finite 10))
              = Inr (JArr leaves)
          \<and> mapE (leafToPoint h) leaves = Inr ps)
       \<and> cnt = node_property c ''point_count''
       \<and> am = js_or (node_property c ''mag'') (sample_mean h q_magnitude ps)
       \<and> ad = js_or (node_property c ''depth'') (sample_mean h q_depth ps)"
proof -
  from assms obtain props fl where
    p: "js_get c ''properties'' = Inr props" and fl: "js_get props ''cluster'' = Inr fl"
    and br: "(if \<not> truthy fl then singleMarker h c else clusterMarker h lib index c)
               = Inr (Cluster co cnt am ad ps)"
    unfolding clusterToMarker_def by (auto simp: bindE_Inr_iff)
  have tr: "truthy fl"
  proof (rule ccontr)
    assume "\<not> truthy fl"
    with br have "singleMarker h c = Inr (Cluster co cnt am ad ps)" by simp
    from singleMarker_is_Single [OF this] show False by auto
  qed
  with br have cm: "clusterMarker h lib index c = Inr (Cluster co cnt am ad ps)" by simp
  from cm p obtain cid lv pc mg dp where
    c1: "js_get props ''cluster_id'' = Inr cid"
    and c2: "getLeaves lib index cid (JNum (Finite 10)) = Inr lv"
    and c3: "array_map (leafToPoint h) lv = Inr ps"
    and c4: "js_get props ''point_count'' = Inr pc" "cnt = pc"
    and c5: "js_get props ''mag'' = Inr mg" "am = js_or mg (sample_mean h q_magnitude ps)"
    and c6: "js_get props ''depth'' = Inr dp" "ad = js_or dp (sample_mean h q_depth ps)"
    unfolding clusterMarker_def by (auto simp: bindE_Inr_iff)
  from array_map_Inr [OF c3] obtain leaves where
    lv: "lv = JArr leaves" "mapE (leafToPoint h) leaves = Inr ps" by blast
  from p fl tr c1 c2 lv c4 c5 c6 show ?thesis
    by (simp add: node_property_eq)
qed

lemma clusterToMarker_Single:
  assumes "clusterToMarker h lib index c = Inr (Single q co mg d)"
  shows "\<not> truthy (node_property c ''cluster'') \<and> singleMarker h c = Inr (Single q co mg d)"
proof -
  from assms obtain props fl where
    p: "js_get c ''properties'' = Inr props" and fl: "js_get props ''cluster'' = Inr fl"
    and br: "(if \<not> truthy fl then singleMarker h c else clusterMarker h lib index c)
               = Inr (Single q co mg d)"
    unfolding clusterToMarker_def by (auto simp: bindE_Inr_iff)
  have tr: "\<not> truthy fl"
  proof
    assume "truthy fl"
    with br have "clusterMarker h lib index c = Inr (Single q co mg d)" by simp
    from clusterMarker_is_Cluster [OF this] show False by auto
  qed
  with br p fl show ?thesis by (simp add: node_property_eq)
qed

lemma singleMarker_fields:
  assumes "singleMarker h c = Inr (Single q co mg d)"
  shows "q_id q = js_or (node_property c ''id'') (js_get_opt c ''id'')
       \<and> q_magnitude q = node_property c ''mag''
       \<and> q_location q = node_property c ''place''
       \<and> q_coordinates q = js_get_opt (js_get_opt c ''geometry'') ''coordinates''
       \<and> js_at2 (q_coordinates q) = Inr (q_depth q)
       \<and> q_time q = formatDate h (node_property c ''time'')
       \<and> q_timestamp q = node_property c ''time''
       \<and> q_url q = node_property c ''url''
       \<and> co = q_coordinates q \<and> mg = q_magnitude q \<and> d = q_depth q"
  using assms unfolding singleMarker_def
  by (auto simp: bindE_Inr_iff node_property_eq js_get_opt_eq)


section \<open>What the proofs need of the index\<close>

text \<open>
  One fact of Supercluster's interface, stated for the nodes a query returned: a node
  without a truthy \<open>cluster\<close> property is one of the points that were loaded.
\<close>

definition points_contract :: "('i, 'b) supercluster_scheme \<Rightarrow> bool" where
  "points_contract lib =
     (\<forall>index0 index fs bbox z nodes c.
        load lib index0 (JArr fs) = Inr index
        \<and> getClusters lib index bbox z = Inr (JArr nodes)
        \<and> c \<in> set nodes
        \<and> \<not> truthy (node_property c ''cluster'')
        \<longrightarrow> c \<in> set fs)"

lemma extend_properties_shape:
  assumes "extend_properties acc n = Inr props"
  shows "\<exists>ps. props = JObj ([(''cluster'', JBool True), (''cluster_id'', JNum (Finite 1)),
                             (''point_count'', JNum (Finite (real n)))] @ ps)"
  using assms by (cases acc) (auto simp: extend_properties_def)

lemma cluster_properties_shape:
  assumes "cluster_properties opts pts = Inr props"
  shows "\<exists>ps. props = JObj ([(''cluster'', JBool True), (''cluster_id'', JNum (Finite 1)),
                             (''point_count'', JNum (Finite (real (length pts))))] @ ps)"
proof -
  from assms obtain acc where "extend_properties acc (length pts) = Inr props"
    by (auto simp: cluster_properties_def bindE_Inr_iff split: list.splits)
  then show ?thesis by (rule extend_properties_shape)
qed

lemma example_getClusters_few:
  "length pts < 2 \<Longrightarrow> example_getClusters (opts, pts) bbox z = Inr (JArr pts)"
  by (simp add: example_getClusters_def)

lemma example_getClusters_many:
  assumes "\<not> length pts < 2" and "example_getClusters (opts, pts) bbox z = Inr (JArr nodes)"
    and "c \<in> set nodes"
  shows "node_property c ''cluster'' = JBool True
       \<and> node_property c ''cluster_id'' = JNum (Finite 1)
       \<and> node_property c ''point_count'' = JNum (Finite (real (length pts)))"
proof -
  from assms(1,2) obtain props where
    p: "cluster_properties opts pts = Inr props"
    and n: "nodes = [JObj [(''type'', JStr ''Feature''), (''id'', JNum (Finite 1)),
                           (''properties'', props),
                           (''geometry'', JObj [(''type'', JStr ''Point''),
                              (''coordinates'', JArr [JNum (Finite 0), JNum (Finite 0)])])]]"
    unfolding example_getClusters_def by (auto simp: bindE_Inr_iff)
  from cluster_properties_shape [OF p] n assms(3) show ?thesis
    by (auto simp: node_property_def)
qed

lemma example_index_points: "points_contract example_index"
  unfolding points_contract_def
proof (intro allI impI)
  fix index0 index :: "options \<times> js list" and fs bbox z nodes c
  assume a: "load example_index index0 (JArr fs) = Inr index
        \<and> getClusters example_index index bbox z = Inr (JArr nodes)
        \<and> c \<in> set nodes
        \<and> \<not> truthy (node_property c ''cluster'')"
  then have i: "index = (fst index0, fs)"
    and g: "example_getClusters (fst index0, fs) bbox z = Inr (JArr nodes)"
    and c: "c \<in> set nodes" and nc: "\<not> truthy (node_property c ''cluster'')"
    by (auto simp: example_index_def)
  show "c \<in> set fs"
  proof (cases "length fs < 2")
    case True
    from example_getClusters_few [OF True, of "fst index0" bbox z] g c show ?thesis by simp
  next
    case False
    from example_getClusters_many [OF False g c] nc show ?thesis by simp
  qed
qed

section \<open>Properties of the descriptors\<close>

lemma points_contractD:
  assumes "points_contract lib"
    and "load lib index0 (JArr fs) = Inr index"
    and "getClusters lib index bbox z = Inr (JArr nodes)"
    and "c \<in> set nodes"
    and "\<not> truthy (node_property c ''cluster'')"
  shows "c \<in> set fs"
proof -
  have "load lib index0 (JArr fs) = Inr index
        \<and> getClusters lib index bbox z = Inr (JArr nodes)
        \<and> c \<in> set nodes
        \<and> \<not> truthy (node_property c ''cluster'')"
    by (intro conjI) (rule assms(2) assms(3) assms(4) assms(5))+
  from assms(1) [unfolded points_contract_def, rule_format, OF this] show ?thesis .
qed


lemma foldl_js_add_finite:
  assumes "map field ps = map (\<lambda>m. JNum (Finite m)) ms"
  shows "foldl (\<lambda>sum p. js_add h sum (field p)) (JNum (Finite s)) ps
           = JNum (Finite (s + sum_list ms))"
  using assms
proof (induction ps arbitrary: ms s)
  case Nil
  then show ?case by simp
next
  case (Cons p ps)
  from Cons.prems obtain m ms' where ms: "ms = m # ms'" "field p = JNum (Finite m)"
    "map field ps = map (\<lambda>m. JNum (Finite m)) ms'"
    by (cases ms) auto
  have "js_add h (JNum (Finite s)) (field p) = JNum (Finite (s + m))"
    by (simp add: ms(2) js_add_def)
  with Cons.IH [OF ms(3), of "s + m"] ms(1) show ?case
    by (simp add: add.assoc)
qed

text \<open>Over points whose values are real numbers the fallback is their arithmetic mean.\<close>

lemma sample_mean_real:
  assumes "ps \<noteq> []" and "map field ps = map (\<lambda>m. JNum (Finite m)) ms"
  shows "sample_mean h field ps = JNum (Finite (sum_list ms / real (length ms)))"
proof -
  from assms(2) have len: "length ms = length ps" by (metis length_map)
  with assms(1) have "real (length ps) \<noteq> 0" by simp
  with foldl_js_add_finite [OF assms(2), of h 0] len show ?thesis
    by (simp add: sample_mean_def js_div_def)
qed

subsection \<open>Examples\<close>

text \<open>A feature as the earthquake feed delivers it, with its \<open>id\<close> and the \<open>url\<close> property.\<close>

definition usgs_feature :: "js \<Rightarrow> js list \<Rightarrow> js \<Rightarrow> js \<Rightarrow> js \<Rightarrow> js \<Rightarrow> js" where
  "usgs_feature ident coords mag place t url =
     JObj [(''type'', JStr ''Feature''),
           (''properties'', JObj [(''mag'', mag), (''place'', place), (''time'', t),
                                  (''url'', url)]),
           (''geometry'', JObj [(''type'', JStr ''Point''), (''coordinates'', JArr coords)]),
           (''id'', ident)]"

definition quake_A :: js where
  "quake_A = usgs_feature (JStr ''a1'')
     [JNum (Finite 142.4), JNum (Finite 38.3), JNum (Finite 30)]
     (JNum (Finite 5)) (JStr ''A'') (JNum (Finite 100)) (JStr ''u1'')"

definition quake_B :: js where
  "quake_B = usgs_feature (JStr ''b2'')
     [JNum (Finite 142.5), JNum (Finite 38.2), JNum (Finite 10)]
     (JNum (Finite 6)) (JStr ''B'') (JNum (Finite 200)) (JStr ''u2'')"

text \<open>The earthquakes that the descriptors carry for the two features.\<close>

definition point_A :: "js \<Rightarrow> earthquake" where
  "point_A ident =
     \<lparr>q_id = ident, q_magnitude = JNum (Finite 5), q_location = JStr ''A'',
      q_coordinates = JArr [JNum (Finite 142.4), JNum (Finite 38.3), JNum (Finite 30)],
      q_depth = JNum (Finite 30), q_time = ''date'', q_timestamp = JNum (Finite 100),
      q_url = JStr ''u1''\<rparr>"

definition point_B :: "js \<Rightarrow> earthquake" where
  "point_B ident =
     \<lparr>q_id = ident, q_magnitude = JNum (Finite 6), q_location = JStr ''B'',
      q_coordinates = JArr [JNum (Finite 142.5), JNum (Finite 38.2), JNum (Finite 10)],
      q_depth = JNum (Finite 10), q_time = ''date'', q_timestamp = JNum (Finite 200),
      q_url = JStr ''u2''\<rparr>"

lemmas example_defs =
  createClusterMarkers_def createClusterMarkers_try_def validFeatures_filter
  kept_shape_def not_nullish_def example_index_def world_bounds_def
  supercluster_options_def example_getClusters_def cluster_properties_def
  extend_properties_def mapped_properties_def usgs_feature_def quake_A_def quake_B_def
  map_callback_def reduce_callback_def js_or_def js_div_def js_add_def js_mul_def
  clusterToMarker_def clusterMarker_def singleMarker_def example_getLeaves_def
  leafToPoint_def sample_mean_def formatDate_def plain_host_def marker_truthy_def
  point_A_def point_B_def

text \<open>
  One feature gives a single descriptor.  Two features give a cluster of count 2; its
  running averages are \<open>NaN\<close> in the index, so both averages are those of the two points.
\<close>

lemma example_single:
  "createClusterMarkers plain_host example_index (JArr [quake_A]) world_bounds
       (JNum (Finite 2.5))
     = Inr [Single (point_A (JStr ''a1''))
              (JArr [JNum (Finite 142.4), JNum (Finite 38.3), JNum (Finite 30)])
              (JNum (Finite 5)) (JNum (Finite 30))]"
  by (simp add: example_defs)

lemma example_pair:
  "createClusterMarkers plain_host example_index (JArr [quake_A, quake_B]) world_bounds
       (JNum (Finite 2.5))
     = Inr [Cluster (JArr [JNum (Finite 0), JNum (Finite 0)]) (JNum (Finite 2))
              (JNum (Finite 5.5)) (JNum (Finite 20))
              [point_A JUndefined, point_B JUndefined]]"
  by (simp add: example_defs)



subsection \<open>An index that tells places apart\<close>























subsection \<open>Cluster descriptors\<close>







text \<open>
  C8.  Every cluster descriptor was made from a node \<open>c\<close> of the query.  Its \<open>avgMagnitude\<close>
  is the \<open>mag\<close> that the index keeps for \<open>c\<close> when that value is available, that is truthy
  (\<open>undefined\<close>, \<open>NaN\<close> and 0 are not), and otherwise the result of the fallback over the
  sample points; \<open>avgDepth\<close> likewise with \<open>depth\<close>.  Over sample points whose magnitudes
  (depths) are real numbers the fallback is their arithmetic mean.
\<close>

theorem cluster_averages:
  assumes "createClusterMarkers h lib earthquakes bounds zoom = Inr markers"
    and "Cluster co cnt am ad ps \<in> set markers"
  shows "(\<exists>index bbox z nodes c.
            getClusters lib index bbox z = Inr (JArr nodes) \<and> c \<in> set nodes
          \<and> am = (if truthy (node_property c ''mag'') then node_property c ''mag''
                  else sample_mean h q_magnitude ps)
          \<and> ad = (if truthy (node_property c ''depth'') then node_property c ''depth''
                  else sample_mean h q_depth ps))
       \<and> (\<forall>ms. ps \<noteq> [] \<and> map q_magnitude ps = map (\<lambda>m. JNum (Finite m)) ms
            \<longrightarrow> sample_mean h q_magnitude ps
                  = JNum (Finite (sum_list ms / real (length ms))))
       \<and> (\<forall>ds. ps \<noteq> [] \<and> map q_depth ps = map (\<lambda>d. JNum (Finite d)) ds
            \<longrightarrow> sample_mean h q_depth ps
                  = JNum (Finite (sum_list ds / real (length ds))))"
proof (intro conjI allI impI)
  from createClusterMarkers_origin [OF assms] obtain index bbox z nodes c where
    g: "getClusters lib index bbox z = Inr (JArr nodes)" and c: "c \<in> set nodes"
    and m: "clusterToMarker h lib index c = Inr (Cluster co cnt am ad ps)"
    by blast
  from clusterToMarker_Cluster [OF m]
  have "am = js_or (node_property c ''mag'') (sample_mean h q_magnitude ps)"
    and "ad = js_or (node_property c ''depth'') (sample_mean h q_depth ps)"
    by simp_all
  then have "am = (if truthy (node_property c ''mag'') then node_property c ''mag''
                  else sample_mean h q_magnitude ps)"
    and "ad = (if truthy (node_property c ''depth'') then node_property c ''depth''
                  else sample_mean h q_depth ps)"
    by (simp_all add: js_or_def)
  with g c show "\<exists>index bbox z nodes c.
            getClusters lib index bbox z = Inr (JArr nodes) \<and> c \<in> set nodes
          \<and> am = (if truthy (node_property c ''mag'') then node_property c ''mag''
                  else sample_mean h q_magnitude ps)
          \<and> ad = (if truthy (node_property c ''depth'') then node_property c ''depth''
                  else sample_mean h q_depth ps)"
    by blast
next
  fix ms
  assume "ps \<noteq> [] \<and> map q_magnitude ps = map (\<lambda>m. JNum (Finite m)) ms"
  then show "sample_mean h q_magnitude ps = JNum (Finite (sum_list ms / real (length ms)))"
    by (simp add: sample_mean_real)
next
  fix ds
  assume "ps \<noteq> [] \<and> map q_depth ps = map (\<lambda>d. JNum (Finite d)) ds"
  then show "sample_mean h q_depth ps = JNum (Finite (sum_list ds / real (length ds)))"
    by (simp add: sample_mean_real)
qed

theorem cluster_averages_witness:
  "createClusterMarkers plain_host example_index (JArr [quake_A, quake_B]) world_bounds
       (JNum (Finite 2.5))
     = Inr [Cluster (JArr [JNum (Finite 0), JNum (Finite 0)]) (JNum (Finite 2))
              (JNum (Finite 5.5)) (JNum (Finite 20))
              [point_A JUndefined, point_B JUndefined]]
   \<and> [point_A JUndefined, point_B JUndefined] \<noteq> []
   \<and> map q_magnitude [point_A JUndefined, point_B JUndefined]
       = map (\<lambda>m. JNum (Finite m)) [5, 6]
   \<and> sample_mean plain_host q_magnitude [point_A JUndefined, point_B JUndefined]
       = JNum (Finite (sum_list [5, 6] / real (length [5 :: real, 6])))
   \<and> sum_list [5, 6] / real (length [5 :: real, 6]) = 5.5
   \<and> map q_depth [point_A JUndefined, point_B JUndefined]
       = map (\<lambda>d. JNum (Finite d)) [30, 10]
   \<and> sample_mean plain_host q_depth [point_A JUndefined, point_B JUndefined]
       = JNum (Finite (sum_list [30, 10] / real (length [30 :: real, 10])))
   \<and> sum_list [30, 10] / real (length [30 :: real, 10]) = 20"
proof -
  let ?ps = "[point_A JUndefined, point_B JUndefined]"
  let ?m = "Cluster (JArr [JNum (Finite 0), JNum (Finite 0)]) (JNum (Finite 2))
              (JNum (Finite 5.5)) (JNum (Finite 20)) ?ps"
  have mem: "?m \<in> set [?m]" by simp
  have pre: "?ps \<noteq> [] \<and> map q_magnitude ?ps = map (\<lambda>m. JNum (Finite m)) [5, 6]"
    by (simp add: point_A_def point_B_def)
  have pre_d: "?ps \<noteq> [] \<and> map q_depth ?ps = map (\<lambda>d. JNum (Finite d)) [30, 10]"
    by (simp add: point_A_def point_B_def)
  from cluster_averages [OF example_pair mem]
  have "\<forall>ms. ?ps \<noteq> [] \<and> map q_magnitude ?ps = map (\<lambda>m. JNum (Finite m)) ms
            \<longrightarrow> sample_mean plain_host q_magnitude ?ps
                  = JNum (Finite (sum_list ms / real (length ms)))"
    and "\<forall>ds. ?ps \<noteq> [] \<and> map q_depth ?ps = map (\<lambda>d. JNum (Finite d)) ds
            \<longrightarrow> sample_mean plain_host q_depth ?ps
                  = JNum (Finite (sum_list ds / real (length ds)))"
    by blast+
  with pre pre_d have "sample_mean plain_host q_magnitude ?ps
       = JNum (Finite (sum_list [5, 6] / real (length [5 :: real, 6])))"
    and "sample_mean plain_host q_depth ?ps
       = JNum (Finite (sum_list [30, 10] / real (length [30 :: real, 10])))"
    by blast+
  moreover have "sum_list [5, 6] / real (length [5 :: real, 6]) = 5.5"
    and "sum_list [30, 10] / real (length [30 :: real, 10]) = 20"
    by simp_all
  ultimately show ?thesis using example_pair pre pre_d by blast
qed

subsection \<open>Single descriptors\<close>

text \<open>
  C9.  On an index whose nodes without a \<open>cluster\<close> property are the loaded points, every
  single descriptor that \<open>createClusterMarkers\<close> returns was made from a feature of the
  input that the validation kept.  Its earthquake has the feature's \<open>mag\<close>, \<open>place\<close>,
  \<open>time\<close> and \<open>url\<close> properties, the feature's coordinates and their third element as
  depth, the \<open>id\<close> of the properties or else of the feature, and the formatted time; the
  top-level coordinates, magnitude and depth are those of the earthquake.
\<close>

theorem single_descriptor_from_feature:
  assumes "points_contract lib"
    and "createClusterMarkers h lib earthquakes bounds zoom = Inr markers"
    and "Single q co mg d \<in> set markers"
  shows "\<exists>f\<in>set (elements earthquakes).
           kept_shape f
         \<and> q_id q = js_or (node_property f ''id'') (js_get_opt f ''id'')
         \<and> q_magnitude q = node_property f ''mag''
         \<and> q_location q = node_property f ''place''
         \<and> q_coordinates q = js_get_opt (js_get_opt f ''geometry'') ''coordinates''
         \<and> js_at2 (q_coordinates q) = Inr (q_depth q)
         \<and> q_time q = formatDate h (node_property f ''time'')
         \<and> q_timestamp q = node_property f ''time''
         \<and> q_url q = node_property f ''url''
         \<and> co = q_coordinates q \<and> mg = q_magnitude q \<and> d = q_depth q"
proof -
  from createClusterMarkers_origin [OF assms(2,3)] obtain index0 index bbox z nodes c where
    l: "load lib index0 (JArr (filter kept_shape (elements earthquakes))) = Inr index"
    and g: "getClusters lib index bbox z = Inr (JArr nodes)" and c: "c \<in> set nodes"
    and m: "clusterToMarker h lib index c = Inr (Single q co mg d)"
    by blast
  from clusterToMarker_Single [OF m]
  have nc: "\<not> truthy (node_property c ''cluster'')"
    and s: "singleMarker h c = Inr (Single q co mg d)"
    by simp_all
  from points_contractD [OF assms(1) l g c nc]
  have "c \<in> set (elements earthquakes)" and "kept_shape c" by simp_all
  with singleMarker_fields [OF s] show ?thesis by blast
qed

theorem single_descriptor_from_feature_witness:
  "points_contract example_index
   \<and> createClusterMarkers plain_host example_index (JArr [quake_A]) world_bounds
       (JNum (Finite 2.5))
     = Inr [Single (point_A (JStr ''a1''))
              (JArr [JNum (Finite 142.4), JNum (Finite 38.3), JNum (Finite 30)])
              (JNum (Finite 5)) (JNum (Finite 30))]
   \<and> kept_shape quake_A
   \<and> q_id (point_A (JStr ''a1'')) = js_get_opt quake_A ''id''
   \<and> q_magnitude (point_A (JStr ''a1'')) = node_property quake_A ''mag''
   \<and> q_location (point_A (JStr ''a1'')) = node_property quake_A ''place''
   \<and> q_timestamp (point_A (JStr ''a1'')) = node_property quake_A ''time''
   \<and> q_url (point_A (JStr ''a1'')) = node_property quake_A ''url''"
proof -
  let ?m = "Single (point_A (JStr ''a1''))
              (JArr [JNum (Finite 142.4), JNum (Finite 38.3), JNum (Finite 30)])
              (JNum (Finite 5)) (JNum (Finite 30))"
  have mem: "?m \<in> set [?m]" by simp
  from single_descriptor_from_feature [OF example_index_points example_single mem]
  obtain f where f: "f \<in> set (elements (JArr [quake_A]))" and k: "kept_shape f"
    and i: "q_id (point_A (JStr ''a1'')) = js_or (node_property f ''id'') (js_get_opt f ''id'')"
    and a: "q_magnitude (point_A (JStr ''a1'')) = node_property f ''mag''"
       "q_location (point_A (JStr ''a1'')) = node_property f ''place''"
       "q_timestamp (point_A (JStr ''a1'')) = node_property f ''time''"
       "q_url (point_A (JStr ''a1'')) = node_property f ''url''"
    by blast
  from f have fa: "f = quake_A" by simp
  have "js_or (node_property quake_A ''id'') (js_get_opt quake_A ''id'')
          = js_get_opt quake_A ''id''"
    by (simp add: js_or_def node_property_def quake_A_def usgs_feature_def)
  with i fa have "q_id (point_A (JStr ''a1'')) = js_get_opt quake_A ''id''" by simp
  with k a fa example_index_points example_single show ?thesis by blast
qed

end
